theory Spec2Isabelle
  imports Main "HOL-Library.Word"
begin

unbundle bit_operations_syntax

section \<open>Bytes, strings and errors\<close>

text \<open>
  A Go \<^verbatim>\<open>[]byte\<close> is a list of 8-bit words. A Go \<^verbatim>\<open>string\<close> is an immutable
  sequence of arbitrary bytes as well, and the conversions \<^verbatim>\<open>[]byte(s)\<close> and
  \<^verbatim>\<open>string(b)\<close> keep every byte, so both are the identity of the model.
  The nil slice and the empty slice are both \<open>[]\<close>.
\<close>

type_synonym byte = "8 word"
type_synonym bytes = "byte list"
type_synonym gostring = "byte list"

text \<open>
  The error values of \<^verbatim>\<open>interface.go\<close>, the errors of the collaborators the package calls,
  and the two shapes of \<^verbatim>\<open>fmt.Errorf\<close> the package uses:
  \<^verbatim>\<open>fmt.Errorf("%w: %v", e, r)\<close> and \<^verbatim>\<open>fmt.Errorf("%w: %w", e1, e2)\<close>.
\<close>

datatype error =
    ErrPlaintextBlockSize
  | ErrCipherTextTooShort
  | ErrCipherTextBlockSize
  | ErrPanic
  | ErrCopy
  | ErrNewAesCipher
  | KeySizeError nat
  | errOpen
  | EOF
  | ErrUnexpectedEOF
  | ErrShortWrite
  | ReadError
  | ErrLength
  | InvalidByteError byte
  | ScryptError
  | ErrorPaddingNotFound
  | ErrorPaddingNotAMultiple
  | ErrorPaddingTooLong
  | ErrorPaddingTooShort
  | ErrorPaddingNotAllTheSame
  | Errorf_wv error string
  | Errorf_ww error error

text \<open>\<^verbatim>\<open>errors.Is\<close>: the error itself, or an error it wraps.\<close>

fun errors_Is :: "error \<Rightarrow> error \<Rightarrow> bool" where
  "errors_Is (Errorf_wv e m) target = (Errorf_wv e m = target \<or> errors_Is e target)"
| "errors_Is (Errorf_ww e1 e2) target =
     (Errorf_ww e1 e2 = target \<or> errors_Is e1 target \<or> errors_Is e2 target)"
| "errors_Is e target = (e = target)"

section \<open>encoding.go: string codecs\<close>

text \<open>
  The interface \<^verbatim>\<open>StringCodec\<close>. Go's \<^verbatim>\<open>DecodeString\<close> returns the bytes decoded so far
  together with the error; every caller in the package drops them when the error is set,
  so the model returns either the error or the bytes.
\<close>

record StringCodec =
  EncodeToString :: "bytes \<Rightarrow> gostring"
  DecodeString :: "gostring \<Rightarrow> error + bytes"

definition NopCodec :: StringCodec where
  "NopCodec = \<lparr>EncodeToString = (\<lambda>src. src), DecodeString = (\<lambda>s. Inr s)\<rparr>"

text \<open>
  \<^verbatim>\<open>HexCodec\<close> hands over to \<^verbatim>\<open>encoding/hex\<close>: two digits of \<^verbatim>\<open>"0123456789abcdef"\<close> for
  each byte; decoding accepts both cases, reports the first byte that is no digit, and a
  bad length after that.
\<close>

definition hextable :: bytes where
  "hextable = [0x30, 0x31, 0x32, 0x33, 0x34, 0x35, 0x36, 0x37, 0x38, 0x39,
               0x61, 0x62, 0x63, 0x64, 0x65, 0x66]"

definition hex_EncodeToString :: "bytes \<Rightarrow> gostring" where
  "hex_EncodeToString src =
     concat (map (\<lambda>v. [hextable ! unat (drop_bit 4 v), hextable ! unat (v AND 0x0f)]) src)"

definition fromHexChar :: "byte \<Rightarrow> byte option" where
  "fromHexChar c =
     (if 0x30 \<le> c \<and> c \<le> 0x39 then Some (c - 0x30)
      else if 0x61 \<le> c \<and> c \<le> 0x66 then Some (c - 0x61 + 10)
      else if 0x41 \<le> c \<and> c \<le> 0x46 then Some (c - 0x41 + 10)
      else None)"

fun hex_DecodeString :: "gostring \<Rightarrow> error + bytes" where
  "hex_DecodeString [] = Inr []"
| "hex_DecodeString [p] =
     (case fromHexChar p of None \<Rightarrow> Inl (InvalidByteError p) | Some a \<Rightarrow> Inl ErrLength)"
| "hex_DecodeString (p # q # s) =
     (case fromHexChar p of
        None \<Rightarrow> Inl (InvalidByteError p)
      | Some a \<Rightarrow>
          (case fromHexChar q of
             None \<Rightarrow> Inl (InvalidByteError q)
           | Some b \<Rightarrow>
               (case hex_DecodeString s of
                  Inl err \<Rightarrow> Inl err
                | Inr dst \<Rightarrow> Inr ((push_bit 4 a OR b) # dst))))"

definition HexCodec :: StringCodec where
  "HexCodec = \<lparr>EncodeToString = hex_EncodeToString, DecodeString = hex_DecodeString\<rparr>"

section \<open>The environment of the package\<close>

text \<open>
  What the package reads from outside its own code: its two package variables
  (\<^verbatim>\<open>DefaultSalt\<close>, whose function is called when a key is constructed, and
  \<^verbatim>\<open>DefaultStringCodec\<close>, read by every \<^verbatim>\<open>Encrypt\<close> and \<^verbatim>\<open>Decrypt\<close>), and the
  transforms computed by its collaborators: \<^verbatim>\<open>scrypt.Key\<close>, and the AES modes of
  \<^verbatim>\<open>crypto/cipher\<close>, each a function of the key, the IV or nonce, and the data.
  A \<^verbatim>\<open>cipher.Stream\<close> is applied to the chunks of a stream in order, which gives the
  transform of the whole stream: the model applies it to the whole stream at once.
\<close>

text \<open>
  \<^verbatim>\<open>scrypt.Key(password, salt, N, r, p, keyLen)\<close> returns Go's pair of the key and the
  error, and \<^verbatim>\<open>keyGen.Bytes\<close> reads the key also when the error is set.
\<close>

type_synonym scrypt = "bytes \<Rightarrow> bytes \<Rightarrow> int \<Rightarrow> int \<Rightarrow> int \<Rightarrow> int \<Rightarrow> bytes \<times> error option"

record env =
  DefaultSalt :: gostring
  DefaultStringCodec :: StringCodec
  scryptKey :: scrypt
  cbc_encrypt :: "bytes \<Rightarrow> bytes \<Rightarrow> bytes \<Rightarrow> bytes"
  cbc_decrypt :: "bytes \<Rightarrow> bytes \<Rightarrow> bytes \<Rightarrow> bytes"
  cfb_encrypt :: "bytes \<Rightarrow> bytes \<Rightarrow> bytes \<Rightarrow> bytes"
  cfb_decrypt :: "bytes \<Rightarrow> bytes \<Rightarrow> bytes \<Rightarrow> bytes"
  ofb_xor :: "bytes \<Rightarrow> bytes \<Rightarrow> bytes \<Rightarrow> bytes"
  ctr_xor :: "bytes \<Rightarrow> bytes \<Rightarrow> bytes \<Rightarrow> bytes"
  gcm_seal :: "bytes \<Rightarrow> bytes \<Rightarrow> bytes \<Rightarrow> bytes"
  gcm_open :: "bytes \<Rightarrow> bytes \<Rightarrow> bytes \<Rightarrow> bytes option"

text \<open>
  A call either returns or panics with a value; the package formats the value with
  \<^verbatim>\<open>%v\<close>, so the model keeps its text.
\<close>

datatype 'a outcome = Returns 'a | Panics string

section \<open>key.go: keys and key derivation\<close>

record keyGen =
  Passphrase :: gostring
  Len :: int
  Salt :: gostring

definition newKeyGen :: "gostring \<Rightarrow> int \<Rightarrow> gostring \<Rightarrow> keyGen" where
  "newKeyGen passphrase len salt = \<lparr>Passphrase = passphrase, Len = len, Salt = salt\<rparr>"

text \<open>
  The padding loop of \<^verbatim>\<open>keyGen.Bytes\<close>:
  \<^verbatim>\<open>for i := keyLength; i < expectedKeyLen; i++ { key = append(key, byte(i%256)) }\<close>
\<close>

function pad_loop :: "nat \<Rightarrow> nat \<Rightarrow> bytes \<Rightarrow> bytes" where
  "pad_loop i expectedKeyLen key =
     (if i < expectedKeyLen
      then pad_loop (Suc i) expectedKeyLen (key @ [of_nat (i mod 256)])
      else key)"
  by pat_completeness auto
termination
  by (relation "measure (\<lambda>(i, n, key). n - i)") auto

declare pad_loop.simps [simp del]

text \<open>
  \<^verbatim>\<open>keyGen.Bytes\<close>. The short variable declaration
  \<^verbatim>\<open>key, err := scrypt.Key(key, salt, 2048, 8, 1, expectedKeyLen)\<close> stands in the block
  that declared \<^verbatim>\<open>key\<close>, so it assigns to that variable: after the call \<^verbatim>\<open>key\<close> is what
  scrypt returned, also when scrypt failed.
\<close>

definition keyGen_Bytes :: "env \<Rightarrow> keyGen \<Rightarrow> bytes" where
  "keyGen_Bytes E k =
     (let expectedKeyLen = (if Len k < 0 then 0 else Len k);
          (key, err) = scryptKey E (Passphrase k) (Salt k) 2048 8 1 expectedKeyLen
      in if err \<noteq> None \<and> int (length key) = expectedKeyLen then []
         else if int (length key) < expectedKeyLen
              then pad_loop (length key) (nat expectedKeyLen) key
         else if int (length key) > expectedKeyLen
              then take (nat expectedKeyLen) key
         else key)"

text \<open>The three implementations of the interface \<^verbatim>\<open>Key\<close>.\<close>

datatype Key = bytesKey bytes | stringKey gostring | keyGenKey keyGen

fun Key_Bytes :: "env \<Rightarrow> Key \<Rightarrow> bytes" where
  "Key_Bytes E (bytesKey b) = b"
| "Key_Bytes E (stringKey s) = s"
| "Key_Bytes E (keyGenKey k) = keyGen_Bytes E k"

definition Bytes :: "bytes \<Rightarrow> Key" where
  "Bytes b = bytesKey b"

definition String :: "gostring \<Rightarrow> Key" where
  "String s = stringKey s"

definition NewKey :: "gostring \<Rightarrow> int \<Rightarrow> gostring \<Rightarrow> Key" where
  "NewKey passphrase len salt = keyGenKey (newKeyGen passphrase len salt)"

text \<open>
  A \<^verbatim>\<open>KeyGenOption\<close> is a function that updates the generator it is given.
  \<^verbatim>\<open>WithLen\<close> replaces every length other than 16, 24 and 32 by 32 before it builds the option.
\<close>

type_synonym KeyGenOption = "keyGen \<Rightarrow> keyGen"

definition Aes128 :: int where "Aes128 = 16"
definition Aes192 :: int where "Aes192 = 24"
definition Aes256 :: int where "Aes256 = 32"
definition NonceSize :: int where "NonceSize = 12"
definition aes_BlockSize :: nat where "aes_BlockSize = 16"

definition WithPassphrase :: "gostring \<Rightarrow> KeyGenOption" where
  "WithPassphrase passphrase = (\<lambda>gen. gen\<lparr>Passphrase := passphrase\<rparr>)"

definition WithSalt :: "gostring \<Rightarrow> KeyGenOption" where
  "WithSalt salt = (\<lambda>gen. gen\<lparr>Salt := salt\<rparr>)"

definition WithLen :: "int \<Rightarrow> KeyGenOption" where
  "WithLen keyLen =
     (let keyLen' = (if keyLen \<noteq> Aes128 \<and> keyLen \<noteq> Aes192 \<and> keyLen \<noteq> Aes256
                     then Aes256 else keyLen)
      in (\<lambda>gen. gen\<lparr>Len := keyLen'\<rparr>))"

text \<open>
  \<^verbatim>\<open>for _, opt := range options { opt(keygen) }\<close> applies the options from left to right.
  \<^verbatim>\<open>DefaultSalt\<close> is a package variable holding a function; the constructors call it once,
  so its value at that moment is an argument of the model.
\<close>

definition apply_options :: "KeyGenOption list \<Rightarrow> keyGen \<Rightarrow> keyGen" where
  "apply_options options keygen = foldl (\<lambda>gen opt. opt gen) keygen options"

definition NewAesKey :: "env \<Rightarrow> gostring \<Rightarrow> KeyGenOption list \<Rightarrow> Key" where
  "NewAesKey E passphrase options =
     (let keygen = apply_options options (newKeyGen passphrase Aes256 (DefaultSalt E))
      in if Len keygen \<noteq> Aes128 \<and> Len keygen \<noteq> Aes192 \<and> Len keygen \<noteq> Aes256
         then keyGenKey (keygen\<lparr>Len := Aes256\<rparr>) else keyGenKey keygen)"

definition NewNonce :: "env \<Rightarrow> gostring \<Rightarrow> KeyGenOption list \<Rightarrow> Key" where
  "NewNonce E passphrase options =
     keyGenKey (apply_options options (newKeyGen passphrase NonceSize (DefaultSalt E)))"

definition NewIv :: "env \<Rightarrow> gostring \<Rightarrow> KeyGenOption list \<Rightarrow> Key" where
  "NewIv E passphrase options =
     keyGenKey (apply_options options (newKeyGen passphrase (int aes_BlockSize) (DefaultSalt E)))"

text \<open>
  \<^verbatim>\<open>NewRandomIv\<close> fills a slice of 16 bytes from \<^verbatim>\<open>crypto/rand\<close>. What the random source
  did is an argument of the model: the content of the slice after the call, the error of
  the call, and the text \<^verbatim>\<open>fmt.Sprint(mathrand.Float64(), time.Now())\<close> that seeds the
  fallback.
\<close>

record entropy =
  rand_iv :: bytes
  rand_err :: "error option"
  sprint_seed :: gostring

definition NewRandomIv :: "env \<Rightarrow> entropy \<Rightarrow> Key" where
  "NewRandomIv E R =
     (if rand_err R = None then Bytes (rand_iv R) else NewIv E (sprint_seed R) [])"

section \<open>The calls into crypto/aes and crypto/cipher\<close>

text \<open>
  The package leaves every check of a length to the standard library. These are the checks
  the library documents: \<^verbatim>\<open>aes.NewCipher\<close> returns a \<^verbatim>\<open>KeySizeError\<close> for a key that
  is not 16, 24 or 32 bytes long; the constructors of the modes panic when the IV is not
  one block long; \<^verbatim>\<open>CryptBlocks\<close> panics on input that is not whole blocks or on a
  destination shorter than the input; \<^verbatim>\<open>Seal\<close> and \<^verbatim>\<open>Open\<close> of GCM panic on a nonce that
  is not 12 bytes long. \<^verbatim>\<open>cipher.NewGCM\<close> fails only for a block size other than 16,
  which AES never has. What the modes then compute comes from the environment.
\<close>

datatype Block = aesCipher bytes

definition aes_NewCipher :: "bytes \<Rightarrow> error + Block" where
  "aes_NewCipher key =
     (if length key = 16 \<or> length key = 24 \<or> length key = 32
      then Inr (aesCipher key) else Inl (KeySizeError (length key)))"

text \<open>Go's \<^verbatim>\<open>copy(dst, src)\<close>: as many elements as both slices hold.\<close>

definition go_copy :: "bytes \<Rightarrow> bytes \<Rightarrow> bytes" where
  "go_copy dst src = take (length dst) src @ drop (length src) dst"

datatype BlockMode = cbcEncrypter Block bytes | cbcDecrypter Block bytes

definition cipher_NewCBCEncrypter :: "Block \<Rightarrow> bytes \<Rightarrow> BlockMode outcome" where
  "cipher_NewCBCEncrypter block iv =
     (if length iv \<noteq> aes_BlockSize
      then Panics ''cipher.NewCBCEncrypter: IV length must equal block size''
      else Returns (cbcEncrypter block iv))"

definition cipher_NewCBCDecrypter :: "Block \<Rightarrow> bytes \<Rightarrow> BlockMode outcome" where
  "cipher_NewCBCDecrypter block iv =
     (if length iv \<noteq> aes_BlockSize
      then Panics ''cipher.NewCBCDecrypter: IV length must equal block size''
      else Returns (cbcDecrypter block iv))"

text \<open>\<^verbatim>\<open>mode.CryptBlocks(dst, src)\<close>; the result is \<^verbatim>\<open>dst\<close> after the call.\<close>

fun CryptBlocks :: "env \<Rightarrow> BlockMode \<Rightarrow> bytes \<Rightarrow> bytes \<Rightarrow> bytes outcome" where
  "CryptBlocks E (cbcEncrypter (aesCipher key) iv) dst src =
     (if length src mod aes_BlockSize \<noteq> 0 then Panics ''crypto/cipher: input not full blocks''
      else if length dst < length src then Panics ''crypto/cipher: output smaller than input''
      else Returns (go_copy dst (cbc_encrypt E key iv src)))"
| "CryptBlocks E (cbcDecrypter (aesCipher key) iv) dst src =
     (if length src mod aes_BlockSize \<noteq> 0 then Panics ''crypto/cipher: input not full blocks''
      else if length dst < length src then Panics ''crypto/cipher: output smaller than input''
      else Returns (go_copy dst (cbc_decrypt E key iv src)))"

text \<open>A \<^verbatim>\<open>cipher.Stream\<close> is its transform of the stream.\<close>

type_synonym Stream = "bytes \<Rightarrow> bytes"

definition cipher_NewCFBEncrypter :: "env \<Rightarrow> Block \<Rightarrow> bytes \<Rightarrow> Stream outcome" where
  "cipher_NewCFBEncrypter E block iv =
     (case block of aesCipher key \<Rightarrow>
        if length iv \<noteq> aes_BlockSize
        then Panics ''cipher.newCFB: IV length must equal block size''
        else Returns (cfb_encrypt E key iv))"

definition cipher_NewCFBDecrypter :: "env \<Rightarrow> Block \<Rightarrow> bytes \<Rightarrow> Stream outcome" where
  "cipher_NewCFBDecrypter E block iv =
     (case block of aesCipher key \<Rightarrow>
        if length iv \<noteq> aes_BlockSize
        then Panics ''cipher.newCFB: IV length must equal block size''
        else Returns (cfb_decrypt E key iv))"

definition cipher_NewOFB :: "env \<Rightarrow> Block \<Rightarrow> bytes \<Rightarrow> Stream outcome" where
  "cipher_NewOFB E block iv =
     (case block of aesCipher key \<Rightarrow>
        if length iv \<noteq> aes_BlockSize
        then Panics ''cipher.NewOFB: IV length must equal block size''
        else Returns (ofb_xor E key iv))"

definition cipher_NewCTR :: "env \<Rightarrow> Block \<Rightarrow> bytes \<Rightarrow> Stream outcome" where
  "cipher_NewCTR E block iv =
     (case block of aesCipher key \<Rightarrow>
        if length iv \<noteq> aes_BlockSize
        then Panics ''cipher.NewCTR: IV length must equal block size''
        else Returns (ctr_xor E key iv))"

datatype AEAD = gcmAEAD Block

definition cipher_NewGCM :: "Block \<Rightarrow> error + AEAD" where
  "cipher_NewGCM block = Inr (gcmAEAD block)"

definition gcmStandardNonceSize :: nat where
  "gcmStandardNonceSize = 12"

definition AEAD_Seal :: "env \<Rightarrow> AEAD \<Rightarrow> bytes \<Rightarrow> bytes \<Rightarrow> bytes outcome" where
  "AEAD_Seal E aesgcm nonce plaintext =
     (case aesgcm of gcmAEAD (aesCipher key) \<Rightarrow>
        if length nonce \<noteq> gcmStandardNonceSize
        then Panics ''crypto/cipher: incorrect nonce length given to GCM''
        else Returns (gcm_seal E key nonce plaintext))"

definition AEAD_Open :: "env \<Rightarrow> AEAD \<Rightarrow> bytes \<Rightarrow> bytes \<Rightarrow> (error + bytes) outcome" where
  "AEAD_Open E aesgcm nonce ciphertext =
     (case aesgcm of gcmAEAD (aesCipher key) \<Rightarrow>
        if length nonce \<noteq> gcmStandardNonceSize
        then Panics ''crypto/cipher: incorrect nonce length given to GCM''
        else (case gcm_open E key nonce ciphertext of
                None \<Rightarrow> Returns (Inl errOpen)
              | Some plaintext \<Rightarrow> Returns (Inr plaintext)))"

section \<open>Recovering from panics\<close>

text \<open>
  \<^verbatim>\<open>recoverFromPanic\<close> is deferred as the first statement of every \<^verbatim>\<open>Encrypt\<close> and
  \<^verbatim>\<open>Decrypt\<close>, with the address of the named result \<^verbatim>\<open>err\<close>. Each of these functions is
  modelled as a body, which returns its pair of results or panics, and the deferred call
  applied to the outcome of the body. No body assigns to its named string result before it
  returns, so that result is still empty when a panic is recovered.
\<close>

definition recoverFromPanic :: "(gostring \<times> error option) outcome \<Rightarrow> gostring \<times> error option" where
  "recoverFromPanic body =
     (case body of
        Returns results \<Rightarrow> results
      | Panics r \<Rightarrow> ([], Some (Errorf_wv ErrPanic r)))"

section \<open>pkcs7: padding\<close>

text \<open>
  Modelled from the spec: the file \<^verbatim>\<open>pkcs7/pkcs7.go\<close> with \<^verbatim>\<open>Pad\<close> and \<^verbatim>\<open>Unpad\<close> is
  missing from the sources; only its tests are there. Section 4.7 of the specification:
  padding appends \<open>n - (len mod n)\<close> bytes that each hold that count; unpadding fails with a
  kind of its own on empty input, on input that is no multiple of \<open>n\<close>, on a last byte
  outside \<open>[1, n]\<close>, and on padding bytes that differ; a block size outside \<open>[2, 255]\<close> is a
  panic. The tests give the same cases, and a nil result beside every error.
\<close>

definition pkcs7_Pad :: "nat \<Rightarrow> bytes \<Rightarrow> bytes outcome" where
  "pkcs7_Pad n buf =
     (if n \<le> 1 \<or> n \<ge> 256 then Panics ''bad multiple''
      else let padding = n - (length buf mod n)
           in Returns (buf @ replicate padding (of_nat padding)))"

definition pkcs7_Unpad :: "nat \<Rightarrow> bytes \<Rightarrow> (bytes \<times> error option) outcome" where
  "pkcs7_Unpad n buf =
     (if n \<le> 1 \<or> n \<ge> 256 then Panics ''bad multiple''
      else if length buf = 0 then Returns ([], Some ErrorPaddingNotFound)
      else if length buf mod n \<noteq> 0 then Returns ([], Some ErrorPaddingNotAMultiple)
      else let padding = unat (last buf)
           in if padding > n then Returns ([], Some ErrorPaddingTooLong)
              else if padding = 0 then Returns ([], Some ErrorPaddingTooShort)
              else if \<not> list_all (\<lambda>b. b = of_nat padding) (drop (length buf - padding) buf)
                   then Returns ([], Some ErrorPaddingNotAllTheSame)
              else Returns (take (length buf - padding) buf, None))"

section \<open>block.go: CBC\<close>

record cbc =
  cbc_key :: Key
  cbc_iv :: Key

definition cbc_Encrypt_body :: "env \<Rightarrow> cbc \<Rightarrow> gostring \<Rightarrow> (gostring \<times> error option) outcome" where
  "cbc_Encrypt_body E c plainText =
     (let plaintext = plainText;
          key = Key_Bytes E (cbc_key c);
          iv = Key_Bytes E (cbc_iv c)
      in if length plaintext mod aes_BlockSize \<noteq> 0 then Returns ([], Some ErrPlaintextBlockSize)
         else case aes_NewCipher key of
           Inl err \<Rightarrow> Returns ([], Some err)
         | Inr block \<Rightarrow>
             (let ciphertext = replicate (aes_BlockSize + length plaintext) 0;
                  head = go_copy (take aes_BlockSize ciphertext) iv
              in case cipher_NewCBCEncrypter block iv of
                   Panics r \<Rightarrow> Panics r
                 | Returns mode \<Rightarrow>
                     (case CryptBlocks E mode (drop aes_BlockSize ciphertext) plaintext of
                        Panics r \<Rightarrow> Panics r
                      | Returns tail \<Rightarrow>
                          Returns (EncodeToString (DefaultStringCodec E) (head @ tail), None))))"

definition cbc_Encrypt :: "env \<Rightarrow> cbc \<Rightarrow> gostring \<Rightarrow> gostring \<times> error option" where
  "cbc_Encrypt E c plainText = recoverFromPanic (cbc_Encrypt_body E c plainText)"

definition cbc_Decrypt_body :: "env \<Rightarrow> cbc \<Rightarrow> gostring \<Rightarrow> (gostring \<times> error option) outcome" where
  "cbc_Decrypt_body E c cipherText =
     (case DecodeString (DefaultStringCodec E) cipherText of
        Inl err \<Rightarrow> Returns ([], Some err)
      | Inr ciphertext \<Rightarrow>
          (let key = Key_Bytes E (cbc_key c)
           in case aes_NewCipher key of
                Inl err \<Rightarrow> Returns ([], Some err)
              | Inr block \<Rightarrow>
                  if length ciphertext < aes_BlockSize then Returns ([], Some ErrCipherTextTooShort)
                  else if length ciphertext mod aes_BlockSize \<noteq> 0
                       then Returns ([], Some ErrCipherTextBlockSize)
                  else (let iv = take aes_BlockSize ciphertext;
                            ciphertext' = drop aes_BlockSize ciphertext
                        in case cipher_NewCBCDecrypter block iv of
                             Panics r \<Rightarrow> Panics r
                           | Returns mode \<Rightarrow>
                               (case CryptBlocks E mode ciphertext' ciphertext' of
                                  Panics r \<Rightarrow> Panics r
                                | Returns plaintext \<Rightarrow> Returns (plaintext, None)))))"

definition cbc_Decrypt :: "env \<Rightarrow> cbc \<Rightarrow> gostring \<Rightarrow> gostring \<times> error option" where
  "cbc_Decrypt E c cipherText = recoverFromPanic (cbc_Decrypt_body E c cipherText)"

text \<open>\<^verbatim>\<open>simpleCBC\<close> embeds a \<^verbatim>\<open>cbc\<close> and pads the plaintext.\<close>

definition simpleCBC_Encrypt_body :: "env \<Rightarrow> cbc \<Rightarrow> gostring \<Rightarrow> (gostring \<times> error option) outcome" where
  "simpleCBC_Encrypt_body E c plainText =
     (case pkcs7_Pad aes_BlockSize plainText of
        Panics r \<Rightarrow> Panics r
      | Returns paddedText \<Rightarrow> Returns (cbc_Encrypt E c paddedText))"

definition simpleCBC_Encrypt :: "env \<Rightarrow> cbc \<Rightarrow> gostring \<Rightarrow> gostring \<times> error option" where
  "simpleCBC_Encrypt E c plainText = recoverFromPanic (simpleCBC_Encrypt_body E c plainText)"

definition simpleCBC_Decrypt_body :: "env \<Rightarrow> cbc \<Rightarrow> gostring \<Rightarrow> (gostring \<times> error option) outcome" where
  "simpleCBC_Decrypt_body E c cipherText =
     (case cbc_Decrypt E c cipherText of
        (paddedText, Some err) \<Rightarrow> Returns ([], Some err)
      | (paddedText, None) \<Rightarrow>
          (case pkcs7_Unpad aes_BlockSize paddedText of
             Panics r \<Rightarrow> Panics r
           | Returns (plaintext, err) \<Rightarrow> Returns (plaintext, err)))"

definition simpleCBC_Decrypt :: "env \<Rightarrow> cbc \<Rightarrow> gostring \<Rightarrow> gostring \<times> error option" where
  "simpleCBC_Decrypt E c cipherText = recoverFromPanic (simpleCBC_Decrypt_body E c cipherText)"

section \<open>Readers and writers\<close>

text \<open>
  An \<^verbatim>\<open>io.Reader\<close> delivers its bytes and then reports the end of the data, fails, or
  panics. An \<^verbatim>\<open>io.Writer\<close> takes bytes while it has room and then fails or panics; a
  \<^verbatim>\<open>bytes.Buffer\<close> always has room. Readers that never end are outside the model.
\<close>

datatype io_fault = io_fails | io_panics

record Reader =
  unread :: bytes
  at_end :: "io_fault option"

record Writer =
  written :: bytes
  room :: "nat option"
  when_full :: io_fault

definition bytes_NewReader :: "bytes \<Rightarrow> Reader" where
  "bytes_NewReader b = \<lparr>unread = b, at_end = None\<rparr>"

definition new_bytes_Buffer :: Writer where
  "new_bytes_Buffer = \<lparr>written = [], room = None, when_full = io_fails\<rparr>"

definition Writer_Write :: "Writer \<Rightarrow> bytes \<Rightarrow> Writer \<times> error option outcome" where
  "Writer_Write w p =
     (case room w of
        None \<Rightarrow> (w\<lparr>written := written w @ p\<rparr>, Returns None)
      | Some n \<Rightarrow>
          if length p \<le> n
          then (w\<lparr>written := written w @ p, room := Some (n - length p)\<rparr>, Returns None)
          else (w\<lparr>written := written w @ take n p, room := Some 0\<rparr>,
                case when_full w of
                  io_fails \<Rightarrow> Returns (Some ErrShortWrite)
                | io_panics \<Rightarrow> Panics ''write''))"

text \<open>
  \<^verbatim>\<open>io.ReadFull(r, buf)\<close> with a buffer of \<open>n\<close> bytes: the bytes read and the rest of the
  reader, or \<^verbatim>\<open>io.EOF\<close> when nothing was read, \<^verbatim>\<open>io.ErrUnexpectedEOF\<close> when the data
  ended early, or the failure of the reader.
\<close>

definition io_ReadFull :: "Reader \<Rightarrow> nat \<Rightarrow> (error + bytes \<times> Reader) outcome" where
  "io_ReadFull r n =
     (if n \<le> length (unread r)
      then Returns (Inr (take n (unread r), r\<lparr>unread := drop n (unread r)\<rparr>))
      else case at_end r of
             None \<Rightarrow> Returns (Inl (if unread r = [] then EOF else ErrUnexpectedEOF))
           | Some io_fails \<Rightarrow> Returns (Inl ReadError)
           | Some io_panics \<Rightarrow> Panics ''read'')"

text \<open>
  \<^verbatim>\<open>io.Copy\<close> through a \<^verbatim>\<open>cipher.StreamWriter\<close> or from a \<^verbatim>\<open>cipher.StreamReader\<close>:
  what the reader delivers goes through the stream into the writer; a failure of the
  writer stops the copy, and the end of the data is no error.
\<close>

definition io_Copy :: "Stream \<Rightarrow> Writer \<Rightarrow> Reader \<Rightarrow> Writer \<times> error option outcome" where
  "io_Copy stream w r =
     (case Writer_Write w (stream (unread r)) of
        (w', Panics p) \<Rightarrow> (w', Panics p)
      | (w', Returns (Some err)) \<Rightarrow> (w', Returns (Some err))
      | (w', Returns None) \<Rightarrow>
          (case at_end r of
             None \<Rightarrow> (w', Returns None)
           | Some io_fails \<Rightarrow> (w', Returns (Some ReadError))
           | Some io_panics \<Rightarrow> (w', Panics ''read'')))"

section \<open>stream.go: CFB, OFB and CTR\<close>

datatype encryptOrDecrypt = encrypt | decrypt

text \<open>
  The three values of the function type \<^verbatim>\<open>cipherStreamBuilder\<close>. The third branch of the
  switch in \<^verbatim>\<open>cfbStreamBuilder\<close> is for a direction other than the two constants, which
  the package never passes.
\<close>

datatype cipherStreamBuilder = cfbStreamBuilder | ofbStreamBuilder | ctrStreamBuilder

fun build :: "env \<Rightarrow> cipherStreamBuilder \<Rightarrow> bytes \<Rightarrow> bytes \<Rightarrow> encryptOrDecrypt
    \<Rightarrow> (error + Stream) outcome" where
  "build E cfbStreamBuilder key iv dir =
     (case aes_NewCipher key of
        Inl err \<Rightarrow> Returns (Inl err)
      | Inr block \<Rightarrow>
          (case dir of
             encrypt \<Rightarrow>
               (case cipher_NewCFBEncrypter E block iv of
                  Panics r \<Rightarrow> Panics r | Returns stream \<Rightarrow> Returns (Inr stream))
           | decrypt \<Rightarrow>
               (case cipher_NewCFBDecrypter E block iv of
                  Panics r \<Rightarrow> Panics r | Returns stream \<Rightarrow> Returns (Inr stream))))"
| "build E ofbStreamBuilder key iv dir =
     (case aes_NewCipher key of
        Inl err \<Rightarrow> Returns (Inl err)
      | Inr block \<Rightarrow>
          (case cipher_NewOFB E block iv of
             Panics r \<Rightarrow> Panics r | Returns stream \<Rightarrow> Returns (Inr stream)))"
| "build E ctrStreamBuilder key iv dir =
     (case aes_NewCipher key of
        Inl err \<Rightarrow> Returns (Inl err)
      | Inr block \<Rightarrow>
          (case cipher_NewCTR E block iv of
             Panics r \<Rightarrow> Panics r | Returns stream \<Rightarrow> Returns (Inr stream)))"

record steam =
  steam_key :: Key
  steam_iv :: Key
  cipherStream :: cipherStreamBuilder

text \<open>
  Modelled from the spec: \<^verbatim>\<open>recoverPanic\<close>, which \<^verbatim>\<open>EncryptStream\<close> and
  \<^verbatim>\<open>DecryptStream\<close> defer, is declared in none of the sources. Section 9 of the
  specification has a recover at each public entry point that converts the fault into an
  error; the model gives it the behaviour of \<^verbatim>\<open>recoverFromPanic\<close>.
\<close>

definition recoverPanic :: "error option outcome \<Rightarrow> error option" where
  "recoverPanic body =
     (case body of
        Returns err \<Rightarrow> err
      | Panics r \<Rightarrow> Some (Errorf_wv ErrPanic r))"

text \<open>
  The stream operations return the error; the model returns the writer after the call
  beside it, since what was written stays written, also after a panic.
\<close>

definition steam_EncryptStream_body :: "env \<Rightarrow> steam \<Rightarrow> Reader \<Rightarrow> Writer
    \<Rightarrow> Writer \<times> error option outcome" where
  "steam_EncryptStream_body E s plainText cipherText =
     (let key = Key_Bytes E (steam_key s);
          iv = Key_Bytes E (steam_iv s)
      in case build E (cipherStream s) key iv encrypt of
           Panics r \<Rightarrow> (cipherText, Panics r)
         | Returns (Inl err) \<Rightarrow> (cipherText, Returns (Some (Errorf_ww ErrNewAesCipher err)))
         | Returns (Inr stream) \<Rightarrow>
             (case Writer_Write cipherText iv of
                (w, Panics r) \<Rightarrow> (w, Panics r)
              | (w, Returns (Some err)) \<Rightarrow> (w, Returns (Some (Errorf_ww ErrCopy err)))
              | (w, Returns None) \<Rightarrow>
                  (case io_Copy stream w plainText of
                     (w', Panics r) \<Rightarrow> (w', Panics r)
                   | (w', Returns (Some err)) \<Rightarrow> (w', Returns (Some (Errorf_ww ErrCopy err)))
                   | (w', Returns None) \<Rightarrow> (w', Returns None))))"

definition steam_EncryptStream :: "env \<Rightarrow> steam \<Rightarrow> Reader \<Rightarrow> Writer \<Rightarrow> Writer \<times> error option" where
  "steam_EncryptStream E s plainText cipherText =
     (case steam_EncryptStream_body E s plainText cipherText of
        (w, body) \<Rightarrow> (w, recoverPanic body))"

definition steam_DecryptStream_body :: "env \<Rightarrow> steam \<Rightarrow> Reader \<Rightarrow> Writer
    \<Rightarrow> Writer \<times> error option outcome" where
  "steam_DecryptStream_body E s cipherText plainText =
     (let key = Key_Bytes E (steam_key s)
      in case io_ReadFull cipherText aes_BlockSize of
           Panics r \<Rightarrow> (plainText, Panics r)
         | Returns (Inl err) \<Rightarrow> (plainText, Returns (Some (Errorf_ww ErrCopy err)))
         | Returns (Inr (iv, cipherText')) \<Rightarrow>
             (case build E (cipherStream s) key iv decrypt of
                Panics r \<Rightarrow> (plainText, Panics r)
              | Returns (Inl err) \<Rightarrow> (plainText, Returns (Some (Errorf_ww ErrNewAesCipher err)))
              | Returns (Inr stream) \<Rightarrow>
                  (case io_Copy stream plainText cipherText' of
                     (w, Panics r) \<Rightarrow> (w, Panics r)
                   | (w, Returns (Some err)) \<Rightarrow> (w, Returns (Some (Errorf_ww ErrCopy err)))
                   | (w, Returns None) \<Rightarrow> (w, Returns None))))"

definition steam_DecryptStream :: "env \<Rightarrow> steam \<Rightarrow> Reader \<Rightarrow> Writer \<Rightarrow> Writer \<times> error option" where
  "steam_DecryptStream E s cipherText plainText =
     (case steam_DecryptStream_body E s cipherText plainText of
        (w, body) \<Rightarrow> (w, recoverPanic body))"

definition NewCFBStream :: "Key \<Rightarrow> Key \<Rightarrow> steam" where
  "NewCFBStream key iv = \<lparr>steam_key = key, steam_iv = iv, cipherStream = cfbStreamBuilder\<rparr>"

definition NewOFBStream :: "Key \<Rightarrow> Key \<Rightarrow> steam" where
  "NewOFBStream key iv = \<lparr>steam_key = key, steam_iv = iv, cipherStream = ofbStreamBuilder\<rparr>"

definition NewCTRStream :: "Key \<Rightarrow> Key \<Rightarrow> steam" where
  "NewCTRStream key iv = \<lparr>steam_key = key, steam_iv = iv, cipherStream = ctrStreamBuilder\<rparr>"

definition SimpleCFBStream :: "env \<Rightarrow> entropy \<Rightarrow> gostring \<Rightarrow> steam" where
  "SimpleCFBStream E R keyPassphrase =
     NewCFBStream (NewAesKey E keyPassphrase []) (NewRandomIv E R)"

definition SimpleOFBStream :: "env \<Rightarrow> entropy \<Rightarrow> gostring \<Rightarrow> steam" where
  "SimpleOFBStream E R keyPassphrase =
     NewOFBStream (NewAesKey E keyPassphrase []) (NewRandomIv E R)"

definition SimpleCTRStream :: "env \<Rightarrow> entropy \<Rightarrow> gostring \<Rightarrow> steam" where
  "SimpleCTRStream E R keyPassphrase =
     NewCTRStream (NewAesKey E keyPassphrase []) (NewRandomIv E R)"

section \<open>block.go: the stream ciphers behind the string interface\<close>

definition streamToBlock_Encrypt_body :: "env \<Rightarrow> steam \<Rightarrow> gostring
    \<Rightarrow> (gostring \<times> error option) outcome" where
  "streamToBlock_Encrypt_body E s plainText =
     (let plainTextReader = bytes_NewReader plainText;
          cipherTextBuffer = new_bytes_Buffer
      in case steam_EncryptStream E s plainTextReader cipherTextBuffer of
           (cipherTextBuffer', Some err) \<Rightarrow> Returns ([], Some err)
         | (cipherTextBuffer', None) \<Rightarrow>
             Returns (EncodeToString (DefaultStringCodec E) (written cipherTextBuffer'), None))"

definition streamToBlock_Encrypt :: "env \<Rightarrow> steam \<Rightarrow> gostring \<Rightarrow> gostring \<times> error option" where
  "streamToBlock_Encrypt E s plainText = recoverFromPanic (streamToBlock_Encrypt_body E s plainText)"

definition streamToBlock_Decrypt_body :: "env \<Rightarrow> steam \<Rightarrow> gostring
    \<Rightarrow> (gostring \<times> error option) outcome" where
  "streamToBlock_Decrypt_body E s cipherText =
     (case DecodeString (DefaultStringCodec E) cipherText of
        Inl err \<Rightarrow> Returns ([], Some err)
      | Inr cipherTextBytes \<Rightarrow>
          (let plainTextBuffer = new_bytes_Buffer
           in case steam_DecryptStream E s (bytes_NewReader cipherTextBytes) plainTextBuffer of
                (plainTextBuffer', Some err) \<Rightarrow> Returns ([], Some err)
              | (plainTextBuffer', None) \<Rightarrow> Returns (written plainTextBuffer', None)))"

definition streamToBlock_Decrypt :: "env \<Rightarrow> steam \<Rightarrow> gostring \<Rightarrow> gostring \<times> error option" where
  "streamToBlock_Decrypt E s cipherText = recoverFromPanic (streamToBlock_Decrypt_body E s cipherText)"

section \<open>aead.go: GCM\<close>

record gcm =
  gcm_key :: Key
  gcm_nonce :: Key

definition gcm_Encrypt_body :: "env \<Rightarrow> gcm \<Rightarrow> gostring \<Rightarrow> (gostring \<times> error option) outcome" where
  "gcm_Encrypt_body E g plainText =
     (let plaintext = plainText;
          key = Key_Bytes E (gcm_key g);
          nonce = Key_Bytes E (gcm_nonce g)
      in case aes_NewCipher key of
           Inl err \<Rightarrow> Returns ([], Some err)
         | Inr block \<Rightarrow>
             (case cipher_NewGCM block of
                Inl err \<Rightarrow> Returns ([], Some err)
              | Inr aesgcm \<Rightarrow>
                  (case AEAD_Seal E aesgcm nonce plaintext of
                     Panics r \<Rightarrow> Panics r
                   | Returns ciphertext \<Rightarrow>
                       Returns (EncodeToString (DefaultStringCodec E) ciphertext, None))))"

definition gcm_Encrypt :: "env \<Rightarrow> gcm \<Rightarrow> gostring \<Rightarrow> gostring \<times> error option" where
  "gcm_Encrypt E g plainText = recoverFromPanic (gcm_Encrypt_body E g plainText)"

definition gcm_Decrypt_body :: "env \<Rightarrow> gcm \<Rightarrow> gostring \<Rightarrow> (gostring \<times> error option) outcome" where
  "gcm_Decrypt_body E g cipherText =
     (case DecodeString (DefaultStringCodec E) cipherText of
        Inl err \<Rightarrow> Returns ([], Some err)
      | Inr ciphertext \<Rightarrow>
          (let key = Key_Bytes E (gcm_key g);
               nonce = Key_Bytes E (gcm_nonce g)
           in case aes_NewCipher key of
                Inl err \<Rightarrow> Returns ([], Some err)
              | Inr block \<Rightarrow>
                  (case cipher_NewGCM block of
                     Inl err \<Rightarrow> Returns ([], Some err)
                   | Inr aesgcm \<Rightarrow>
                       (case AEAD_Open E aesgcm nonce ciphertext of
                          Panics r \<Rightarrow> Panics r
                        | Returns (Inl err) \<Rightarrow> Returns ([], Some err)
                        | Returns (Inr plaintext) \<Rightarrow> Returns (plaintext, None)))))"

definition gcm_Decrypt :: "env \<Rightarrow> gcm \<Rightarrow> gostring \<Rightarrow> gostring \<times> error option" where
  "gcm_Decrypt E g cipherText = recoverFromPanic (gcm_Decrypt_body E g cipherText)"

section \<open>interface.go: the interface Cipher and its constructors\<close>

text \<open>The four implementations of \<^verbatim>\<open>Cipher\<close>, and the dispatch of its two methods.\<close>

datatype Cipher =
    cbcCipher cbc
  | simpleCBCCipher cbc
  | streamToBlockCipher steam
  | gcmCipher gcm

fun Encrypt :: "env \<Rightarrow> Cipher \<Rightarrow> gostring \<Rightarrow> gostring \<times> error option" where
  "Encrypt E (cbcCipher c) plainText = cbc_Encrypt E c plainText"
| "Encrypt E (simpleCBCCipher c) plainText = simpleCBC_Encrypt E c plainText"
| "Encrypt E (streamToBlockCipher s) plainText = streamToBlock_Encrypt E s plainText"
| "Encrypt E (gcmCipher g) plainText = gcm_Encrypt E g plainText"

fun Decrypt :: "env \<Rightarrow> Cipher \<Rightarrow> gostring \<Rightarrow> gostring \<times> error option" where
  "Decrypt E (cbcCipher c) cipherText = cbc_Decrypt E c cipherText"
| "Decrypt E (simpleCBCCipher c) cipherText = simpleCBC_Decrypt E c cipherText"
| "Decrypt E (streamToBlockCipher s) cipherText = streamToBlock_Decrypt E s cipherText"
| "Decrypt E (gcmCipher g) cipherText = gcm_Decrypt E g cipherText"

definition NewCBC :: "Key \<Rightarrow> Key \<Rightarrow> Cipher" where
  "NewCBC key iv = cbcCipher \<lparr>cbc_key = key, cbc_iv = iv\<rparr>"

definition SimpleCBC :: "env \<Rightarrow> entropy \<Rightarrow> gostring \<Rightarrow> Cipher" where
  "SimpleCBC E R keyPassphrase =
     simpleCBCCipher \<lparr>cbc_key = NewAesKey E keyPassphrase [], cbc_iv = NewRandomIv E R\<rparr>"

definition newStreamToBlock :: "steam \<Rightarrow> Cipher" where
  "newStreamToBlock sc = streamToBlockCipher sc"

definition NewCFB :: "Key \<Rightarrow> Key \<Rightarrow> Cipher" where
  "NewCFB key iv = newStreamToBlock (NewCFBStream key iv)"

definition SimpleCFB :: "env \<Rightarrow> entropy \<Rightarrow> gostring \<Rightarrow> Cipher" where
  "SimpleCFB E R keyPassphrase = newStreamToBlock (SimpleCFBStream E R keyPassphrase)"

definition NewOFB :: "Key \<Rightarrow> Key \<Rightarrow> Cipher" where
  "NewOFB key iv = newStreamToBlock (NewOFBStream key iv)"

definition SimpleOFB :: "env \<Rightarrow> entropy \<Rightarrow> gostring \<Rightarrow> Cipher" where
  "SimpleOFB E R keyPassphrase = newStreamToBlock (SimpleOFBStream E R keyPassphrase)"

definition NewCTR :: "Key \<Rightarrow> Key \<Rightarrow> Cipher" where
  "NewCTR key iv = newStreamToBlock (NewCTRStream key iv)"

definition SimpleCTR :: "env \<Rightarrow> entropy \<Rightarrow> gostring \<Rightarrow> Cipher" where
  "SimpleCTR E R keyPassphrase = newStreamToBlock (SimpleCTRStream E R keyPassphrase)"

definition NewGCM :: "Key \<Rightarrow> Key \<Rightarrow> Cipher" where
  "NewGCM key nonce = gcmCipher \<lparr>gcm_key = key, gcm_nonce = nonce\<rparr>"

definition SimpleGCM :: "env \<Rightarrow> gostring \<Rightarrow> gostring \<Rightarrow> Cipher" where
  "SimpleGCM E keyPassphrase noncePassphrase =
     NewGCM (NewAesKey E keyPassphrase []) (NewNonce E noncePassphrase [])"

section \<open>What the package expects of its collaborators\<close>

text \<open>
  The contracts of the collaborators, as far as the properties below need them.
  A codec decodes what it encoded. \<^verbatim>\<open>scrypt.Key\<close> returns a nil key beside an error.
  For a key of 16, 24 or 32 bytes and an IV of one block, CBC decryption inverts CBC
  encryption on whole blocks and keeps the length; the decrypting stream of CFB inverts the
  encrypting one, and the streams of OFB and CTR invert themselves. For such a key and a
  nonce of 12 bytes, \<^verbatim>\<open>Open\<close> returns what \<^verbatim>\<open>Seal\<close> sealed. The limit of GCM on the size
  of one message (64 GiB) is not modelled.
\<close>

definition valid_key :: "bytes \<Rightarrow> bool" where
  "valid_key key = (length key = 16 \<or> length key = 24 \<or> length key = 32)"

definition codec_ok :: "StringCodec \<Rightarrow> bool" where
  "codec_ok C = (\<forall>b. DecodeString C (EncodeToString C b) = Inr b)"

definition scrypt_ok :: "env \<Rightarrow> bool" where
  "scrypt_ok E =
     (\<forall>password salt N r p keyLen. snd (scryptKey E password salt N r p keyLen) \<noteq> None
        \<longrightarrow> fst (scryptKey E password salt N r p keyLen) = [])"

definition cbc_ok :: "env \<Rightarrow> bool" where
  "cbc_ok E =
     (\<forall>key iv src. valid_key key \<and> length iv = 16 \<and> length src mod 16 = 0
        \<longrightarrow> length (cbc_encrypt E key iv src) = length src
          \<and> cbc_decrypt E key iv (cbc_encrypt E key iv src) = src)"

definition streams_ok :: "env \<Rightarrow> bool" where
  "streams_ok E =
     (\<forall>key iv src. valid_key key \<and> length iv = 16
        \<longrightarrow> cfb_decrypt E key iv (cfb_encrypt E key iv src) = src
          \<and> ofb_xor E key iv (ofb_xor E key iv src) = src
          \<and> ctr_xor E key iv (ctr_xor E key iv src) = src)"

definition gcm_ok :: "env \<Rightarrow> bool" where
  "gcm_ok E =
     (\<forall>key nonce plaintext. valid_key key \<and> length nonce = 12
        \<longrightarrow> gcm_open E key nonce (gcm_seal E key nonce plaintext) = Some plaintext)"

definition collaborators_ok :: "env \<Rightarrow> bool" where
  "collaborators_ok E =
     (codec_ok (DefaultStringCodec E) \<and> scrypt_ok E \<and> cbc_ok E \<and> streams_ok E \<and> gcm_ok E)"

text \<open>
  What the round trip asks of an instance and a plaintext: a key of valid length with an
  IV of one block, or a nonce of 12 bytes for GCM; whole blocks of plaintext for plain CBC
  and any plaintext otherwise. The round trip itself: encryption returns no error, and
  decryption of its result by the same instance returns the plaintext and no error.
\<close>

fun well_keyed :: "env \<Rightarrow> Cipher \<Rightarrow> bool" where
  "well_keyed E (cbcCipher c) =
     (valid_key (Key_Bytes E (cbc_key c)) \<and> length (Key_Bytes E (cbc_iv c)) = 16)"
| "well_keyed E (simpleCBCCipher c) =
     (valid_key (Key_Bytes E (cbc_key c)) \<and> length (Key_Bytes E (cbc_iv c)) = 16)"
| "well_keyed E (streamToBlockCipher s) =
     (valid_key (Key_Bytes E (steam_key s)) \<and> length (Key_Bytes E (steam_iv s)) = 16)"
| "well_keyed E (gcmCipher g) =
     (valid_key (Key_Bytes E (gcm_key g)) \<and> length (Key_Bytes E (gcm_nonce g)) = 12)"

fun aligned :: "Cipher \<Rightarrow> gostring \<Rightarrow> bool" where
  "aligned (cbcCipher c) plainText = (length plainText mod 16 = 0)"
| "aligned c plainText = True"

definition roundtrips :: "env \<Rightarrow> Cipher \<Rightarrow> gostring \<Rightarrow> bool" where
  "roundtrips E c plainText =
     (snd (Encrypt E c plainText) = None
      \<and> Decrypt E c (fst (Encrypt E c plainText)) = (plainText, None))"

text \<open>The random source filled the 16 bytes of the slice it was given.\<close>

definition entropy_ok :: "entropy \<Rightarrow> bool" where
  "entropy_ok R = (length (rand_iv R) = 16)"

section \<open>An environment to evaluate in\<close>

text \<open>
  Stand-ins for the collaborators that can be computed with: every mode adds to, or xors
  with, one byte made of the key and the IV, and the key derivation counts up from a byte
  made of the passphrase and the salt. The codec is \<^verbatim>\<open>HexCodec\<close>, the default of the
  package. They meet the contracts above, which is all the examples need of them.
\<close>

definition tweak :: "bytes \<Rightarrow> bytes \<Rightarrow> byte" where
  "tweak key iv = sum_list key + sum_list iv"

definition example_scrypt :: scrypt where
  "example_scrypt password salt N r p keyLen =
     (map (\<lambda>i. tweak password salt + of_nat i) [0..<nat keyLen], None)"

definition example_open :: "bytes \<Rightarrow> bytes \<Rightarrow> bytes \<Rightarrow> bytes option" where
  "example_open key nonce ciphertext =
     (if length ciphertext < 16 then None
      else if drop (length ciphertext - 16) ciphertext \<noteq> replicate 16 (tweak key nonce) then None
      else Some (map (\<lambda>b. b XOR tweak key nonce) (take (length ciphertext - 16) ciphertext)))"

definition example_env :: env where
  "example_env =
     \<lparr>DefaultSalt = [0x4e, 0x61, 0x43, 0x6c],
      DefaultStringCodec = HexCodec,
      scryptKey = example_scrypt,
      cbc_encrypt = (\<lambda>key iv. map (\<lambda>b. b + tweak key iv)),
      cbc_decrypt = (\<lambda>key iv. map (\<lambda>b. b - tweak key iv)),
      cfb_encrypt = (\<lambda>key iv. map (\<lambda>b. b + tweak key iv)),
      cfb_decrypt = (\<lambda>key iv. map (\<lambda>b. b - tweak key iv)),
      ofb_xor = (\<lambda>key iv. map (\<lambda>b. b XOR tweak key iv)),
      ctr_xor = (\<lambda>key iv. map (\<lambda>b. b XOR tweak key iv)),
      gcm_seal = (\<lambda>key nonce plaintext.
                    map (\<lambda>b. b XOR tweak key nonce) plaintext @ replicate 16 (tweak key nonce)),
      gcm_open = example_open\<rparr>"

text \<open>The same environment with a key derivation that fails, as scrypt does: nil and an error.\<close>

definition failing_scrypt :: scrypt where
  "failing_scrypt password salt N r p keyLen = ([], Some ScryptError)"

definition failing_env :: env where
  "failing_env = example_env\<lparr>scryptKey := failing_scrypt\<rparr>"

section \<open>The fallback of the key derivation, as the specification words it\<close>

text \<open>
  Section 4.1 of the specification: when the primitive fails, pad the raw passphrase bytes
  by appending \<open>i mod 256\<close> for each index \<open>i\<close> beyond the passphrase length, or truncate
  them to the length. This definition follows those words; \<open>keyGen_Bytes\<close> follows the code.
\<close>

definition spec_fallback :: "gostring \<Rightarrow> nat \<Rightarrow> bytes" where
  "spec_fallback passphrase n =
     (if length passphrase < n
      then passphrase @ map (\<lambda>i. of_nat (i mod 256)) [length passphrase..<n]
      else take n passphrase)"

section \<open>The codecs and the example environment meet the contracts\<close>

lemma hextable_digits:
  "list_all (\<lambda>n. fromHexChar (hextable ! n) = Some (of_nat n)) [0..<16]"
  by code_simp

lemma fromHexChar_hextable: "n < 16 \<Longrightarrow> fromHexChar (hextable ! n) = Some (of_nat n)"
  using hextable_digits by (simp add: list_all_iff)

lemma nibbles: "push_bit 4 (drop_bit 4 v) OR (v AND 0x0f) = (v :: byte)"
proof -
  have "v AND 0x0f = take_bit 4 v"
    using take_bit_eq_mask [of 4 v] by (simp add: mask_eq_exp_minus_1)
  then show ?thesis
    by (simp add: bit_eq_iff bit_simps) (auto simp: bit_simps)
qed

lemma unat_nib1: "unat (drop_bit 4 (v::byte)) < 16"
proof -
  have "unat v < 256" using unsigned_less [of v, where ?'a = nat] by simp
  then show ?thesis by (simp add: drop_bit_eq_div unat_div)
qed

lemma unat_nib2: "unat ((v::byte) AND 0x0f) < 16"
proof -
  have "v AND 0x0f = take_bit 4 v"
    using take_bit_eq_mask [of 4 v] by (simp add: mask_eq_exp_minus_1)
  then show ?thesis
    by (simp add: take_bit_eq_mod unat_mod)
qed

lemma hex_roundtrip: "hex_DecodeString (hex_EncodeToString src) = Inr src"
proof (induction src)
  case Nil
  then show ?case by (simp add: hex_EncodeToString_def)
next
  case (Cons v src)
  then show ?case
    using fromHexChar_hextable [OF unat_nib1 [of v]] fromHexChar_hextable [OF unat_nib2 [of v]]
    by (simp add: hex_EncodeToString_def nibbles)
qed

lemma xor_twice: "(x XOR t) XOR t = (x :: byte)"
  by (simp add: xor.assoc)

lemma codec_ok_HexCodec: "codec_ok HexCodec"
  by (simp add: codec_ok_def HexCodec_def hex_roundtrip)

lemma codec_ok_NopCodec: "codec_ok NopCodec"
  by (simp add: codec_ok_def NopCodec_def)

lemma scrypt_ok_example: "scrypt_ok example_env"
  by (simp add: scrypt_ok_def example_env_def example_scrypt_def)

lemma cbc_ok_example: "cbc_ok example_env"
  by (simp add: cbc_ok_def example_env_def comp_def)

lemma streams_ok_example: "streams_ok example_env"
  by (simp add: streams_ok_def example_env_def comp_def xor_twice)

lemma gcm_ok_example: "gcm_ok example_env"
  by (simp add: gcm_ok_def example_env_def example_open_def comp_def xor_twice)

lemma collaborators_ok_example: "collaborators_ok example_env"
  unfolding collaborators_ok_def
  using scrypt_ok_example cbc_ok_example streams_ok_example gcm_ok_example codec_ok_HexCodec
  by (simp add: example_env_def)

section \<open>Key derivation\<close>

lemma pad_loop_eq: "pad_loop i n key = key @ map (\<lambda>j. of_nat (j mod 256)) [i..<n]"
proof (induction i n key rule: pad_loop.induct)
  case (1 i n key)
  show ?case
  proof (cases "i < n")
    case True
    then show ?thesis using 1 by (subst pad_loop.simps) (simp add: upt_conv_Cons)
  next
    case False
    then show ?thesis by (subst pad_loop.simps) simp
  qed
qed

lemma length_pad_loop: "length (pad_loop i n key) = length key + (n - i)"
  by (simp add: pad_loop_eq)

lemma length_keyGen_Bytes:
  assumes "scrypt_ok E"
  shows "length (keyGen_Bytes E k) = nat (max (Len k) 0)"
proof -
  obtain key err where s: "scryptKey E (Passphrase k) (Salt k) 2048 8 1 (if Len k < 0 then 0 else Len k) = (key, err)"
    by (cases "scryptKey E (Passphrase k) (Salt k) 2048 8 1 (if Len k < 0 then 0 else Len k)")
  have nil: "err \<noteq> None \<Longrightarrow> key = []"
    using assms s unfolding scrypt_ok_def by (metis fst_conv snd_conv)
  show ?thesis
    using nil by (auto simp: keyGen_Bytes_def Let_def s length_pad_loop max_def)
qed

lemma keyGen_Bytes_nonpos:
  assumes "Len k \<le> 0"
  shows "keyGen_Bytes E k = []"
proof -
  have e: "(if Len k < 0 then 0 else Len k) = 0"
    using assms by simp
  show ?thesis
    unfolding keyGen_Bytes_def e Let_def by (simp split: prod.splits)
qed

lemma keyGen_Bytes_scrypt_fails:
  assumes "scryptKey E (Passphrase k) (Salt k) 2048 8 1 (if Len k < 0 then 0 else Len k) = ([], Some e)"
  shows "keyGen_Bytes E k = map (\<lambda>i. of_nat (i mod 256)) [0..<nat (Len k)]"
  using assms by (simp add: keyGen_Bytes_def Let_def pad_loop_eq)

text \<open>
  C2: for every passphrase, salt and integer length \<open>n\<close>, \<^verbatim>\<open>keyGen.Bytes\<close> returns exactly
  \<open>max n 0\<close> bytes, the empty sequence for every \<open>n \<le> 0\<close>, and the same bytes for the same
  passphrase, length and salt. The length needs of scrypt only that it returns a nil key
  beside an error.
\<close>

theorem keyGen_Bytes_length_deterministic:
  assumes "scrypt_ok E"
  shows "length (keyGen_Bytes E (newKeyGen passphrase n salt)) = nat (max n 0)
       \<and> (n \<le> 0 \<longrightarrow> keyGen_Bytes E (newKeyGen passphrase n salt) = [])
       \<and> (\<forall>k k'. Passphrase k = Passphrase k' \<and> Len k = Len k' \<and> Salt k = Salt k'
             \<longrightarrow> keyGen_Bytes E k = keyGen_Bytes E k')"
proof -
  have "length (keyGen_Bytes E (newKeyGen passphrase n salt)) = nat (max n 0)"
    using length_keyGen_Bytes [OF assms, of "newKeyGen passphrase n salt"]
    by (simp add: newKeyGen_def)
  moreover have "n \<le> 0 \<longrightarrow> keyGen_Bytes E (newKeyGen passphrase n salt) = []"
    using keyGen_Bytes_nonpos [of "newKeyGen passphrase n salt" E]
    by (simp add: newKeyGen_def)
  moreover have "\<forall>k k'. Passphrase k = Passphrase k' \<and> Len k = Len k' \<and> Salt k = Salt k'
             \<longrightarrow> keyGen_Bytes E k = keyGen_Bytes E k'"
    by (simp add: keyGen_Bytes_def)
  ultimately show ?thesis by blast
qed

theorem keyGen_Bytes_length_deterministic_witness:
  "scrypt_ok example_env
   \<and> length (keyGen_Bytes example_env (newKeyGen [0x61, 0x62] 4 [0x73])) = 4
   \<and> keyGen_Bytes example_env (newKeyGen [0x61, 0x62] (- 1) [0x73]) = []"
proof -
  note t = keyGen_Bytes_length_deterministic [OF scrypt_ok_example]
  have "length (keyGen_Bytes example_env (newKeyGen [0x61, 0x62] 4 [0x73])) = nat (max 4 0)"
    using t [of "[0x61, 0x62]" 4 "[0x73]"] by (rule conjunct1)
  moreover have "keyGen_Bytes example_env (newKeyGen [0x61, 0x62] (- 1) [0x73]) = []"
    using t [of "[0x61, 0x62]" "- 1" "[0x73]"] by simp
  ultimately show ?thesis
    using scrypt_ok_example by simp
qed

text \<open>
  C8: when scrypt fails, the fallback is meant to pad or truncate the passphrase. The code
  has assigned the nil key of the failed call to \<^verbatim>\<open>key\<close> by then, so it pads nil: for the
  passphrase \<^verbatim>\<open>"ab"\<close> and length 4 it returns the bytes 0, 1, 2, 3 where the specification
  has \<^verbatim>\<open>"ab"\<close>, 2, 3, and for \<^verbatim>\<open>"abc"\<close> and length 2 it returns 0, 1 where the
  specification has \<^verbatim>\<open>"ab"\<close>.
\<close>

theorem keyGen_Bytes_fallback_forgets_passphrase:
  "keyGen_Bytes failing_env \<lparr>Passphrase = [0x61, 0x62], Len = 4, Salt = []\<rparr> = [0, 1, 2, 3]
   \<and> spec_fallback [0x61, 0x62] 4 = [0x61, 0x62, 2, 3]
   \<and> keyGen_Bytes failing_env \<lparr>Passphrase = [0x61, 0x62, 0x63], Len = 2, Salt = []\<rparr> = [0, 1]
   \<and> spec_fallback [0x61, 0x62, 0x63] 2 = [0x61, 0x62]"
  by (simp add: keyGen_Bytes_scrypt_fails [where e = ScryptError] failing_env_def failing_scrypt_def
      example_env_def spec_fallback_def upt_rec)

lemma clamped: "Len (WithLen n g) = (if n = 16 \<or> n = 24 \<or> n = 32 then n else 32)"
  by (simp add: WithLen_def Aes128_def Aes192_def Aes256_def Let_def)

text \<open>
  C9, as amended: \<^verbatim>\<open>NewAesKey\<close> yields 16, 24 or 32 bytes whatever options it is given,
  and 32 bytes for a length option other than these three; \<^verbatim>\<open>NewKey\<close> yields exactly \<open>n\<close>
  bytes for every \<open>n \<ge> 0\<close>; the length option \<^verbatim>\<open>WithLen\<close> itself replaces every length other
  than 16, 24 and 32 by 32, so \<^verbatim>\<open>NewNonce\<close> and \<^verbatim>\<open>NewIv\<close> with \<^verbatim>\<open>WithLen(n)\<close> yield \<open>n\<close>
  bytes only for these three lengths and 32 bytes otherwise; without a length option they
  yield 12 and 16 bytes.
\<close>

theorem derived_lengths:
  assumes "scrypt_ok E"
  shows "(length (Key_Bytes E (NewAesKey E passphrase options)) = 16
          \<or> length (Key_Bytes E (NewAesKey E passphrase options)) = 24
          \<or> length (Key_Bytes E (NewAesKey E passphrase options)) = 32)
       \<and> length (Key_Bytes E (NewAesKey E passphrase [WithLen n]))
           = (if n = 16 \<or> n = 24 \<or> n = 32 then nat n else 32)
       \<and> (0 \<le> n \<longrightarrow> length (Key_Bytes E (NewKey passphrase n salt)) = nat n)
       \<and> length (Key_Bytes E (NewNonce E passphrase [WithLen n]))
           = (if n = 16 \<or> n = 24 \<or> n = 32 then nat n else 32)
       \<and> length (Key_Bytes E (NewIv E passphrase [WithLen n]))
           = (if n = 16 \<or> n = 24 \<or> n = 32 then nat n else 32)
       \<and> length (Key_Bytes E (NewNonce E passphrase [])) = 12
       \<and> length (Key_Bytes E (NewIv E passphrase [])) = 16"
  using assms
  by (auto simp: length_keyGen_Bytes NewAesKey_def NewKey_def NewNonce_def NewIv_def Let_def
      apply_options_def clamped newKeyGen_def Aes128_def Aes192_def Aes256_def NonceSize_def
      aes_BlockSize_def)

text \<open>
  C9 as stated fails: \<^verbatim>\<open>NewNonce\<close> with \<^verbatim>\<open>WithLen(20)\<close> yields 32 bytes, not 20.
\<close>

theorem NewNonce_WithLen_counterexample:
  "length (Key_Bytes example_env (NewNonce example_env [0x70] [WithLen 20])) = 32
   \<and> length (Key_Bytes example_env (NewNonce example_env [0x70] [WithLen 20])) \<noteq> 20"
  by (simp add: NewNonce_def apply_options_def WithLen_def newKeyGen_def Aes128_def Aes192_def
      Aes256_def keyGen_Bytes_def example_env_def example_scrypt_def)

theorem derived_lengths_witness:
  "scrypt_ok example_env
   \<and> length (Key_Bytes example_env (NewAesKey example_env [0x70] [WithLen 20])) = 32
   \<and> length (Key_Bytes example_env (NewKey [0x70] 20 [0x73])) = 20
   \<and> length (Key_Bytes example_env (NewIv example_env [0x70] [WithLen 24])) = 24
   \<and> length (Key_Bytes example_env (NewNonce example_env [0x70] [])) = 12"
  using derived_lengths [OF scrypt_ok_example, of "[0x70]" "[WithLen 20]" 20 "[0x73]"]
        derived_lengths [OF scrypt_ok_example, of "[0x70]" "[]" 24 "[0x73]"]
        scrypt_ok_example
  by simp

section \<open>CBC: sizes and the IV of decryption\<close>

lemma aes_NewCipher_valid: "valid_key key \<Longrightarrow> aes_NewCipher key = Inr (aesCipher key)"
  by (auto simp: aes_NewCipher_def valid_key_def)

lemma aes_NewCipher_invalid:
  "\<not> valid_key key \<Longrightarrow> aes_NewCipher key = Inl (KeySizeError (length key))"
  by (auto simp: aes_NewCipher_def valid_key_def)

text \<open>
  C4: \<^verbatim>\<open>cbc.Encrypt\<close> returns \<^verbatim>\<open>ErrPlaintextBlockSize\<close> and the empty string whenever the
  length of the plaintext is not a multiple of 16, whatever the key and the IV. Given a
  ciphertext that decodes and a key of valid length, \<^verbatim>\<open>cbc.Decrypt\<close> returns
  \<^verbatim>\<open>ErrCipherTextTooShort\<close> when the decoded ciphertext is shorter than 16 bytes, and for
  every decoded length that is not a multiple of 16 it returns an error and the empty
  string: \<^verbatim>\<open>ErrCipherTextBlockSize\<close>, after the check for a short ciphertext, which comes
  first in the code as in the specification.
\<close>

theorem cbc_size_errors:
  "(length plainText mod 16 \<noteq> 0
      \<longrightarrow> cbc_Encrypt E c plainText = ([], Some ErrPlaintextBlockSize))
   \<and> (DecodeString (DefaultStringCodec E) cipherText = Inr ciphertext
        \<and> valid_key (Key_Bytes E (cbc_key c)) \<and> length ciphertext < 16
      \<longrightarrow> cbc_Decrypt E c cipherText = ([], Some ErrCipherTextTooShort))
   \<and> (DecodeString (DefaultStringCodec E) cipherText = Inr ciphertext
        \<and> valid_key (Key_Bytes E (cbc_key c)) \<and> length ciphertext mod 16 \<noteq> 0
      \<longrightarrow> cbc_Decrypt E c cipherText =
            ([], Some (if length ciphertext < 16 then ErrCipherTextTooShort
                       else ErrCipherTextBlockSize)))"
  by (simp add: cbc_Encrypt_def cbc_Encrypt_body_def cbc_Decrypt_def cbc_Decrypt_body_def
      recoverFromPanic_def aes_BlockSize_def aes_NewCipher_valid Let_def)

lemma example_env_codec: "DefaultStringCodec example_env = HexCodec"
  by (simp add: example_env_def)

lemma example_env_cbc:
  "cbc_encrypt example_env key iv src = map (\<lambda>b. b + tweak key iv) src"
  "cbc_decrypt example_env key iv src = map (\<lambda>b. b - tweak key iv) src"
  by (simp_all add: example_env_def)

lemma HexCodec_Decode: "DecodeString HexCodec = hex_DecodeString"
  by (simp add: HexCodec_def)

lemma HexCodec_Encode: "EncodeToString HexCodec = hex_EncodeToString"
  by (simp add: HexCodec_def)

lemma hex5: "hex_DecodeString [0x30, 0x31, 0x30, 0x32, 0x30, 0x33] = Inr [1, 2, 3]"
  by (simp add: fromHexChar_def)

theorem cbc_size_errors_witness:
  "cbc_Encrypt example_env \<lparr>cbc_key = Bytes (replicate 16 1), cbc_iv = Bytes (replicate 16 2)\<rparr>
      [0x61, 0x62, 0x63] = ([], Some ErrPlaintextBlockSize)
   \<and> cbc_Decrypt example_env \<lparr>cbc_key = Bytes (replicate 16 1), cbc_iv = Bytes (replicate 16 2)\<rparr>
      [0x30, 0x31, 0x30, 0x32, 0x30, 0x33] = ([], Some ErrCipherTextTooShort)"
proof -
  let ?c = "\<lparr>cbc_key = Bytes (replicate 16 1), cbc_iv = Bytes (replicate 16 2)\<rparr>"
  let ?ct = "[0x30, 0x31, 0x30, 0x32, 0x30, 0x33] :: gostring"
  have d: "DecodeString (DefaultStringCodec example_env) ?ct = Inr [1, 2, 3]"
    by (simp only: example_env_codec HexCodec_Decode hex5)
  have k: "valid_key (Key_Bytes example_env (cbc_key ?c))"
    by (simp add: valid_key_def Bytes_def)
  note t = cbc_size_errors [of "[0x61, 0x62, 0x63]" example_env ?c ?ct "[1, 2, 3]"]
  have "length [0x61, 0x62, 0x63 :: byte] mod 16 \<noteq> 0"
    by simp
  with t have e: "cbc_Encrypt example_env ?c [0x61, 0x62, 0x63] = ([], Some ErrPlaintextBlockSize)"
    by blast
  have "length [1, 2, 3 :: byte] < 16"
    by simp
  with t d k have "cbc_Decrypt example_env ?c ?ct = ([], Some ErrCipherTextTooShort)"
    by blast
  with e show ?thesis by blast
qed

lemma CryptBlocks_Decrypter:
  "length src mod 16 = 0 \<Longrightarrow>
   CryptBlocks E (cbcDecrypter (aesCipher key) iv) src src
     = Returns (go_copy src (cbc_decrypt E key iv src))"
  by (simp add: aes_BlockSize_def)

lemma cbc_Decrypt_well_sized:
  assumes "DecodeString (DefaultStringCodec E) cipherText = Inr ciphertext"
    and "valid_key (Key_Bytes E (cbc_key c))"
    and "16 \<le> length ciphertext" and "length ciphertext mod 16 = 0"
  shows "cbc_Decrypt E c cipherText =
           (go_copy (drop 16 ciphertext)
              (cbc_decrypt E (Key_Bytes E (cbc_key c)) (take 16 ciphertext) (drop 16 ciphertext)),
            None)"
proof -
  have m: "length (drop 16 ciphertext) mod 16 = 0"
    using assms(3,4) by (simp add: mod_eq_0_iff_dvd)
  have l: "\<not> length ciphertext < 16" "length (take 16 ciphertext) = 16"
    using assms(3) by simp_all
  have n: "cipher_NewCBCDecrypter (aesCipher k) (take 16 ciphertext)
             = Returns (cbcDecrypter (aesCipher k) (take 16 ciphertext))" for k
    using l(2) by (simp only: cipher_NewCBCDecrypter_def aes_BlockSize_def if_False simp_thms)
  show ?thesis
    unfolding cbc_Decrypt_def cbc_Decrypt_body_def recoverFromPanic_def aes_BlockSize_def Let_def
    by (simp only: assms(1,4) aes_NewCipher_valid [OF assms(2)] l(1) n
        CryptBlocks_Decrypter [OF m] sum.case outcome.case if_False simp_thms)
qed

text \<open>
  C5: two CBC instances with the same key and any two IVs return the same result of
  \<^verbatim>\<open>Decrypt\<close> for every ciphertext; for a ciphertext that decodes to whole blocks, at
  least one, and a valid key, the result is the CBC decryption of the blocks after the
  first under the first block as the IV.
\<close>

theorem cbc_Decrypt_ignores_iv:
  "Decrypt E (NewCBC key iv1) cipherText = Decrypt E (NewCBC key iv2) cipherText
   \<and> (DecodeString (DefaultStringCodec E) cipherText = Inr ciphertext
        \<and> valid_key (Key_Bytes E key)
        \<and> 16 \<le> length ciphertext \<and> length ciphertext mod 16 = 0
      \<longrightarrow> Decrypt E (NewCBC key iv1) cipherText =
            (go_copy (drop 16 ciphertext)
               (cbc_decrypt E (Key_Bytes E key) (take 16 ciphertext) (drop 16 ciphertext)),
             None))"
proof (intro conjI impI)
  show "Decrypt E (NewCBC key iv1) cipherText = Decrypt E (NewCBC key iv2) cipherText"
    by (simp add: NewCBC_def cbc_Decrypt_def cbc_Decrypt_body_def split: sum.splits)
next
  assume a: "DecodeString (DefaultStringCodec E) cipherText = Inr ciphertext
        \<and> valid_key (Key_Bytes E key)
        \<and> 16 \<le> length ciphertext \<and> length ciphertext mod 16 = 0"
  then show "Decrypt E (NewCBC key iv1) cipherText =
            (go_copy (drop 16 ciphertext)
               (cbc_decrypt E (Key_Bytes E key) (take 16 ciphertext) (drop 16 ciphertext)),
             None)"
    using cbc_Decrypt_well_sized [of E cipherText ciphertext "\<lparr>cbc_key = key, cbc_iv = iv1\<rparr>"]
    by (simp add: NewCBC_def)
qed

lemma tweak_replicate: "tweak (replicate m a) (replicate n b) = of_nat m * a + of_nat n * b"
  by (simp add: tweak_def sum_list_replicate)

theorem cbc_Decrypt_ignores_iv_witness:
  "Decrypt example_env (NewCBC (Bytes (replicate 16 1)) (Bytes [1, 2, 3]))
      (hex_EncodeToString (replicate 32 7)) = (replicate 16 135, None)
   \<and> Decrypt example_env (NewCBC (Bytes (replicate 16 1)) (Bytes (replicate 16 9)))
      (hex_EncodeToString (replicate 32 7)) = (replicate 16 135, None)"
proof -
  let ?ct = "hex_EncodeToString (replicate 32 7)"
  let ?k = "Bytes (replicate 16 1)"
  have d: "DecodeString (DefaultStringCodec example_env) ?ct = Inr (replicate 32 7)"
    by (simp only: example_env_codec HexCodec_Decode hex_roundtrip)
  have k: "valid_key (Key_Bytes example_env ?k)"
    by (simp add: valid_key_def Bytes_def)
  have s: "16 \<le> length (replicate 32 (7 :: byte))" "length (replicate 32 (7 :: byte)) mod 16 = 0"
    by simp_all
  note t = cbc_Decrypt_ignores_iv [of example_env ?k _ ?ct _ "replicate 32 7"]
  have "Decrypt example_env (NewCBC ?k (Bytes [1, 2, 3])) ?ct =
          (go_copy (drop 16 (replicate 32 7))
             (cbc_decrypt example_env (Key_Bytes example_env ?k) (take 16 (replicate 32 7))
                (drop 16 (replicate 32 7))), None)"
    using t [of "Bytes [1, 2, 3]" "Bytes (replicate 16 9)"] d k s by blast
  then have a: "Decrypt example_env (NewCBC ?k (Bytes [1, 2, 3])) ?ct = (replicate 16 135, None)"
    by (simp add: go_copy_def example_env_cbc Bytes_def tweak_replicate)
  have "Decrypt example_env (NewCBC ?k (Bytes (replicate 16 9))) ?ct
      = Decrypt example_env (NewCBC ?k (Bytes [1, 2, 3])) ?ct"
    using t [of "Bytes (replicate 16 9)" "Bytes [1, 2, 3]"] by (rule conjunct1)
  then have "Decrypt example_env (NewCBC ?k (Bytes (replicate 16 9))) ?ct = (replicate 16 135, None)"
    using a by (rule trans)
  with a show ?thesis by (rule conjI)
qed

section \<open>The stream adapter on short ciphertexts, and the lengths GCM accepts\<close>

lemma io_ReadFull_short:
  "length b < 16 \<Longrightarrow>
   io_ReadFull (bytes_NewReader b) aes_BlockSize
     = Returns (Inl (if b = [] then EOF else ErrUnexpectedEOF))"
  by (simp add: io_ReadFull_def bytes_NewReader_def aes_BlockSize_def)

lemma steam_DecryptStream_short:
  "length b < 16 \<Longrightarrow>
   steam_DecryptStream E s (bytes_NewReader b) w
     = (w, Some (Errorf_ww ErrCopy (if b = [] then EOF else ErrUnexpectedEOF)))"
  by (simp add: steam_DecryptStream_def steam_DecryptStream_body_def io_ReadFull_short
      recoverPanic_def)

text \<open>
  C10: for every cipher built over the stream adapter, whatever its mode, key and IV,
  \<^verbatim>\<open>Decrypt\<close> of a ciphertext that decodes to fewer than 16 bytes returns the empty
  string and an error that wraps \<^verbatim>\<open>ErrCopy\<close>: \<^verbatim>\<open>io.EOF\<close> inside when nothing was decoded,
  \<^verbatim>\<open>io.ErrUnexpectedEOF\<close> otherwise. Under \<^verbatim>\<open>HexCodec\<close> and \<^verbatim>\<open>NopCodec\<close> the empty string
  is such a ciphertext, so \<^verbatim>\<open>Decrypt("")\<close> is an error.
\<close>

theorem streamToBlock_Decrypt_short:
  "(DecodeString (DefaultStringCodec E) cipherText = Inr cipherTextBytes
      \<and> length cipherTextBytes < 16
    \<longrightarrow> Decrypt E (newStreamToBlock s) cipherText =
          ([], Some (Errorf_ww ErrCopy (if cipherTextBytes = [] then EOF else ErrUnexpectedEOF)))
        \<and> errors_Is (Errorf_ww ErrCopy (if cipherTextBytes = [] then EOF else ErrUnexpectedEOF))
             ErrCopy)
   \<and> (DefaultStringCodec E = HexCodec \<or> DefaultStringCodec E = NopCodec
    \<longrightarrow> Decrypt E (newStreamToBlock s) [] = ([], Some (Errorf_ww ErrCopy EOF)))"
proof -
  have a: "Decrypt E (newStreamToBlock s) c =
          ([], Some (Errorf_ww ErrCopy (if b = [] then EOF else ErrUnexpectedEOF)))"
    if "DecodeString (DefaultStringCodec E) c = Inr b" and "length b < 16" for c b
    using that
    by (simp add: newStreamToBlock_def streamToBlock_Decrypt_def streamToBlock_Decrypt_body_def
        steam_DecryptStream_short recoverFromPanic_def)
  have "DecodeString (DefaultStringCodec E) [] = Inr []"
    if "DefaultStringCodec E = HexCodec \<or> DefaultStringCodec E = NopCodec"
    using that by (auto simp: HexCodec_def NopCodec_def)
  then show ?thesis
    using a a [of "[]" "[]"] by auto
qed

theorem streamToBlock_Decrypt_short_witness:
  "Decrypt example_env (NewCTR (Bytes (replicate 32 1)) (Bytes (replicate 16 2)))
     [0x30, 0x31, 0x30, 0x32, 0x30, 0x33] = ([], Some (Errorf_ww ErrCopy ErrUnexpectedEOF))
   \<and> Decrypt example_env (NewCFB (Bytes (replicate 32 1)) (Bytes (replicate 16 2))) []
       = ([], Some (Errorf_ww ErrCopy EOF))"
proof -
  let ?ct = "[0x30, 0x31, 0x30, 0x32, 0x30, 0x33] :: gostring"
  have d: "DecodeString (DefaultStringCodec example_env) ?ct = Inr [1, 2, 3]"
    by (simp only: example_env_codec HexCodec_Decode hex5)
  have l: "length [1, 2, 3 :: byte] < 16"
    by simp
  have "Decrypt example_env (newStreamToBlock (NewCTRStream (Bytes (replicate 32 1))
          (Bytes (replicate 16 2)))) ?ct
        = ([], Some (Errorf_ww ErrCopy (if [1, 2, 3 :: byte] = [] then EOF else ErrUnexpectedEOF)))"
    using streamToBlock_Decrypt_short [of example_env ?ct "[1, 2, 3]"] d l by blast
  then have a: "Decrypt example_env (NewCTR (Bytes (replicate 32 1)) (Bytes (replicate 16 2))) ?ct
        = ([], Some (Errorf_ww ErrCopy ErrUnexpectedEOF))"
    by (simp add: NewCTR_def)
  have "Decrypt example_env (newStreamToBlock (NewCFBStream (Bytes (replicate 32 1))
          (Bytes (replicate 16 2)))) [] = ([], Some (Errorf_ww ErrCopy EOF))"
    using streamToBlock_Decrypt_short [of example_env] example_env_codec by blast
  then have "Decrypt example_env (NewCFB (Bytes (replicate 32 1)) (Bytes (replicate 16 2))) []
       = ([], Some (Errorf_ww ErrCopy EOF))"
    by (simp add: NewCFB_def)
  with a show ?thesis by (rule conjI)
qed

lemma gcm_Encrypt_cases:
  "gcm_Encrypt E g plainText =
     (if \<not> valid_key (Key_Bytes E (gcm_key g))
      then ([], Some (KeySizeError (length (Key_Bytes E (gcm_key g)))))
      else if length (Key_Bytes E (gcm_nonce g)) \<noteq> 12
      then ([], Some (Errorf_wv ErrPanic ''crypto/cipher: incorrect nonce length given to GCM''))
      else (EncodeToString (DefaultStringCodec E)
              (gcm_seal E (Key_Bytes E (gcm_key g)) (Key_Bytes E (gcm_nonce g)) plainText), None))"
  by (simp add: gcm_Encrypt_def gcm_Encrypt_body_def aes_NewCipher_valid aes_NewCipher_invalid
      cipher_NewGCM_def AEAD_Seal_def gcmStandardNonceSize_def recoverFromPanic_def Let_def)

lemma gcm_Decrypt_cases:
  "gcm_Decrypt E g cipherText =
     (case DecodeString (DefaultStringCodec E) cipherText of
        Inl err \<Rightarrow> ([], Some err)
      | Inr ciphertext \<Rightarrow>
          if \<not> valid_key (Key_Bytes E (gcm_key g))
          then ([], Some (KeySizeError (length (Key_Bytes E (gcm_key g)))))
          else if length (Key_Bytes E (gcm_nonce g)) \<noteq> 12
          then ([], Some (Errorf_wv ErrPanic ''crypto/cipher: incorrect nonce length given to GCM''))
          else (case gcm_open E (Key_Bytes E (gcm_key g)) (Key_Bytes E (gcm_nonce g)) ciphertext of
                  None \<Rightarrow> ([], Some errOpen)
                | Some plaintext \<Rightarrow> (plaintext, None)))"
  by (simp add: gcm_Decrypt_def gcm_Decrypt_body_def aes_NewCipher_valid aes_NewCipher_invalid
      cipher_NewGCM_def AEAD_Open_def gcmStandardNonceSize_def recoverFromPanic_def Let_def
      split: sum.splits option.splits)

text \<open>
  C6, as amended: GCM \<^verbatim>\<open>Encrypt\<close> and \<^verbatim>\<open>Decrypt\<close> return the empty string and an error
  whenever the key is not 16, 24 or 32 bytes long or the nonce is not 12 bytes long: the
  \<^verbatim>\<open>KeySizeError\<close> of \<^verbatim>\<open>aes.NewCipher\<close> for the key, and the recovered panic of the
  primitive for the nonce. With a key of 16, 24 or 32 bytes and a nonce of 12 bytes
  \<^verbatim>\<open>Encrypt\<close> succeeds.
\<close>

theorem gcm_length_errors:
  "(\<not> valid_key (Key_Bytes E key) \<or> length (Key_Bytes E nonce) \<noteq> 12
      \<longrightarrow> (\<exists>err. Encrypt E (NewGCM key nonce) plainText = ([], Some err))
        \<and> (\<exists>err. Decrypt E (NewGCM key nonce) cipherText = ([], Some err)))
   \<and> (\<not> valid_key (Key_Bytes E key)
      \<longrightarrow> Encrypt E (NewGCM key nonce) plainText
            = ([], Some (KeySizeError (length (Key_Bytes E key)))))
   \<and> (valid_key (Key_Bytes E key) \<and> length (Key_Bytes E nonce) \<noteq> 12
      \<longrightarrow> (\<exists>r. Encrypt E (NewGCM key nonce) plainText = ([], Some (Errorf_wv ErrPanic r))))
   \<and> (valid_key (Key_Bytes E key) \<and> length (Key_Bytes E nonce) = 12
      \<longrightarrow> Encrypt E (NewGCM key nonce) plainText =
            (EncodeToString (DefaultStringCodec E)
               (gcm_seal E (Key_Bytes E key) (Key_Bytes E nonce) plainText), None))"
  by (auto simp: NewGCM_def gcm_Encrypt_cases gcm_Decrypt_cases split: sum.splits option.splits)

text \<open>
  C6 as stated fails: with a key of 24 bytes and a nonce of 12 bytes GCM encrypts and
  decrypts without error.
\<close>

theorem gcm_24_byte_key_counterexample:
  "length (Key_Bytes example_env (Bytes (replicate 24 1))) = 24
   \<and> snd (Encrypt example_env (NewGCM (Bytes (replicate 24 1)) (Bytes (replicate 12 2))) [0x41])
       = None
   \<and> Decrypt example_env (NewGCM (Bytes (replicate 24 1)) (Bytes (replicate 12 2)))
        (fst (Encrypt example_env (NewGCM (Bytes (replicate 24 1)) (Bytes (replicate 12 2))) [0x41]))
       = ([0x41], None)"
proof -
  let ?g = "\<lparr>gcm_key = Bytes (replicate 24 1), gcm_nonce = Bytes (replicate 12 2)\<rparr>"
  have k: "valid_key (Key_Bytes example_env (gcm_key ?g))"
    "length (Key_Bytes example_env (gcm_nonce ?g)) = 12"
    by (simp_all add: valid_key_def Bytes_def)
  have e: "gcm_Encrypt example_env ?g [0x41] =
      (hex_EncodeToString (gcm_seal example_env (replicate 24 1) (replicate 12 2) [0x41]), None)"
    using k by (simp add: gcm_Encrypt_cases example_env_codec HexCodec_Encode Bytes_def)
  have o: "gcm_open example_env (replicate 24 1) (replicate 12 2)
             (gcm_seal example_env (replicate 24 1) (replicate 12 2) [0x41]) = Some [0x41]"
    using gcm_ok_example by (simp add: gcm_ok_def valid_key_def)
  have d: "gcm_Decrypt example_env ?g
      (hex_EncodeToString (gcm_seal example_env (replicate 24 1) (replicate 12 2) [0x41]))
      = ([0x41], None)"
    using k by (simp add: gcm_Decrypt_cases example_env_codec HexCodec_Decode hex_roundtrip
        Bytes_def o)
  show ?thesis
    using e d by (simp add: NewGCM_def Bytes_def)
qed

theorem gcm_length_errors_witness:
  "Encrypt example_env (NewGCM (Bytes [1, 2, 3]) (Bytes (replicate 12 2))) [0x41]
     = ([], Some (KeySizeError 3))
   \<and> (\<exists>err. Decrypt example_env (NewGCM (Bytes [1, 2, 3]) (Bytes (replicate 12 2))) [0x41]
         = ([], Some err))"
proof -
  have k: "\<not> valid_key (Key_Bytes example_env (Bytes [1, 2, 3]))"
    by (simp add: valid_key_def Bytes_def)
  note t = gcm_length_errors [of example_env "Bytes [1, 2, 3]" "Bytes (replicate 12 2)"
      "[0x41]" "[0x41]"]
  have "Encrypt example_env (NewGCM (Bytes [1, 2, 3]) (Bytes (replicate 12 2))) [0x41]
     = ([], Some (KeySizeError (length (Key_Bytes example_env (Bytes [1, 2, 3])))))"
    using t k by blast
  then have "Encrypt example_env (NewGCM (Bytes [1, 2, 3]) (Bytes (replicate 12 2))) [0x41]
     = ([], Some (KeySizeError 3))"
    by (simp add: Bytes_def)
  moreover have "\<exists>err. Decrypt example_env (NewGCM (Bytes [1, 2, 3]) (Bytes (replicate 12 2))) [0x41]
         = ([], Some err)"
    using t k by blast
  ultimately show ?thesis by (rule conjI)
qed

section \<open>Panics at the boundary\<close>

lemma build_bad_iv:
  "valid_key key \<Longrightarrow> length iv \<noteq> 16 \<Longrightarrow> \<exists>r. build E b key iv dir = Panics r"
  by (cases b; cases dir)
     (simp_all add: aes_NewCipher_valid cipher_NewCFBEncrypter_def cipher_NewCFBDecrypter_def
        cipher_NewOFB_def cipher_NewCTR_def aes_BlockSize_def)

lemma cbc_Encrypt_bad_iv:
  assumes "valid_key (Key_Bytes E (cbc_key c))" and "length (Key_Bytes E (cbc_iv c)) \<noteq> 16"
    and "length plainText mod 16 = 0"
  shows "cbc_Encrypt_body E c plainText
           = Panics ''cipher.NewCBCEncrypter: IV length must equal block size''"
  using assms
  by (simp add: cbc_Encrypt_body_def aes_NewCipher_valid cipher_NewCBCEncrypter_def
      aes_BlockSize_def Let_def)

lemma steam_EncryptStream_bad_iv:
  assumes "valid_key (Key_Bytes E (steam_key s))" and "length (Key_Bytes E (steam_iv s)) \<noteq> 16"
  shows "\<exists>r. steam_EncryptStream_body E s plainText cipherText = (cipherText, Panics r)"
proof -
  obtain r where "build E (cipherStream s) (Key_Bytes E (steam_key s)) (Key_Bytes E (steam_iv s))
      encrypt = Panics r"
    using build_bad_iv [OF assms] by blast
  then show ?thesis
    by (simp add: steam_EncryptStream_body_def Let_def)
qed

lemma recover_pair:
  "(\<And>s e. body = Returns (s, Some e) \<Longrightarrow> s = []) \<Longrightarrow>
   snd (recoverFromPanic body) \<noteq> None \<Longrightarrow> fst (recoverFromPanic body) = []"
  by (cases body) (auto simp: recoverFromPanic_def)

lemma cbc_Encrypt_pair: "snd (cbc_Encrypt E c p) \<noteq> None \<Longrightarrow> fst (cbc_Encrypt E c p) = []"
  unfolding cbc_Encrypt_def
  by (rule recover_pair)
     (auto simp: cbc_Encrypt_body_def Let_def split: if_splits sum.splits outcome.splits)

lemma cbc_Decrypt_pair: "snd (cbc_Decrypt E c p) \<noteq> None \<Longrightarrow> fst (cbc_Decrypt E c p) = []"
  unfolding cbc_Decrypt_def
  by (rule recover_pair)
     (auto simp: cbc_Decrypt_body_def Let_def split: if_splits sum.splits outcome.splits)

lemma simpleCBC_Encrypt_pair:
  "snd (simpleCBC_Encrypt E c p) \<noteq> None \<Longrightarrow> fst (simpleCBC_Encrypt E c p) = []"
proof (cases "pkcs7_Pad aes_BlockSize p")
  case (Returns padded)
  then show "snd (simpleCBC_Encrypt E c p) \<noteq> None \<Longrightarrow> fst (simpleCBC_Encrypt E c p) = []"
    using cbc_Encrypt_pair [of E c padded]
    by (simp add: simpleCBC_Encrypt_def simpleCBC_Encrypt_body_def recoverFromPanic_def)
next
  case (Panics r)
  then show ?thesis
    by (simp add: simpleCBC_Encrypt_def simpleCBC_Encrypt_body_def recoverFromPanic_def)
qed

lemma simpleCBC_Decrypt_pair:
  "snd (simpleCBC_Decrypt E c p) \<noteq> None \<Longrightarrow> fst (simpleCBC_Decrypt E c p) = []"
  unfolding simpleCBC_Decrypt_def
  by (rule recover_pair)
     (auto simp: simpleCBC_Decrypt_body_def pkcs7_Unpad_def Let_def
       split: if_splits prod.splits option.splits outcome.splits)

lemma streamToBlock_Encrypt_pair:
  "snd (streamToBlock_Encrypt E s p) \<noteq> None \<Longrightarrow> fst (streamToBlock_Encrypt E s p) = []"
  unfolding streamToBlock_Encrypt_def
  by (rule recover_pair)
     (auto simp: streamToBlock_Encrypt_body_def Let_def split: prod.splits option.splits)

lemma streamToBlock_Decrypt_pair:
  "snd (streamToBlock_Decrypt E s p) \<noteq> None \<Longrightarrow> fst (streamToBlock_Decrypt E s p) = []"
  unfolding streamToBlock_Decrypt_def
  by (rule recover_pair)
     (auto simp: streamToBlock_Decrypt_body_def Let_def split: sum.splits prod.splits option.splits)

lemma gcm_Encrypt_pair: "snd (gcm_Encrypt E g p) \<noteq> None \<Longrightarrow> fst (gcm_Encrypt E g p) = []"
  by (simp add: gcm_Encrypt_cases split: if_splits)

lemma gcm_Decrypt_pair: "snd (gcm_Decrypt E g p) \<noteq> None \<Longrightarrow> fst (gcm_Decrypt E g p) = []"
  by (simp add: gcm_Decrypt_cases split: if_splits sum.splits option.splits)

lemma error_without_result:
  "snd (Encrypt E c input) \<noteq> None \<Longrightarrow> fst (Encrypt E c input) = []"
  "snd (Decrypt E c input) \<noteq> None \<Longrightarrow> fst (Decrypt E c input) = []"
  using cbc_Encrypt_pair cbc_Decrypt_pair simpleCBC_Encrypt_pair simpleCBC_Decrypt_pair
    streamToBlock_Encrypt_pair streamToBlock_Decrypt_pair gcm_Encrypt_pair gcm_Decrypt_pair
  by (cases c; simp)+

text \<open>
  C3: every \<^verbatim>\<open>Encrypt\<close> and \<^verbatim>\<open>Decrypt\<close> of the four implementations of \<^verbatim>\<open>Cipher\<close>, and
  \<^verbatim>\<open>EncryptStream\<close> and \<^verbatim>\<open>DecryptStream\<close>, return their results also when their body
  panics: the panic with value \<open>r\<close> becomes the empty string and an error that wraps
  \<^verbatim>\<open>ErrPanic\<close> and carries \<open>r\<close>. The inputs on which the primitives panic are of this kind:
  an IV that is not 16 bytes long for CBC encryption and for the stream modes, and a nonce
  that is not 12 bytes long for GCM, each with a key of valid length. Every \<^verbatim>\<open>Encrypt\<close> and
  \<^verbatim>\<open>Decrypt\<close> returns a pair of a string and an error in which the string is empty whenever
  the error is set. The operations are total functions into these pairs, so every call
  returns.
\<close>

theorem panics_become_errors:
  "errors_Is (Errorf_wv ErrPanic r) ErrPanic
   \<and> (snd (Encrypt E cipher input) \<noteq> None \<longrightarrow> fst (Encrypt E cipher input) = [])
   \<and> (snd (Decrypt E cipher input) \<noteq> None \<longrightarrow> fst (Decrypt E cipher input) = [])
   \<and> (cbc_Encrypt_body E c input = Panics r
        \<longrightarrow> Encrypt E (cbcCipher c) input = ([], Some (Errorf_wv ErrPanic r)))
   \<and> (cbc_Decrypt_body E c input = Panics r
        \<longrightarrow> Decrypt E (cbcCipher c) input = ([], Some (Errorf_wv ErrPanic r)))
   \<and> (simpleCBC_Encrypt_body E c input = Panics r
        \<longrightarrow> Encrypt E (simpleCBCCipher c) input = ([], Some (Errorf_wv ErrPanic r)))
   \<and> (simpleCBC_Decrypt_body E c input = Panics r
        \<longrightarrow> Decrypt E (simpleCBCCipher c) input = ([], Some (Errorf_wv ErrPanic r)))
   \<and> (streamToBlock_Encrypt_body E s input = Panics r
        \<longrightarrow> Encrypt E (streamToBlockCipher s) input = ([], Some (Errorf_wv ErrPanic r)))
   \<and> (streamToBlock_Decrypt_body E s input = Panics r
        \<longrightarrow> Decrypt E (streamToBlockCipher s) input = ([], Some (Errorf_wv ErrPanic r)))
   \<and> (gcm_Encrypt_body E g input = Panics r
        \<longrightarrow> Encrypt E (gcmCipher g) input = ([], Some (Errorf_wv ErrPanic r)))
   \<and> (gcm_Decrypt_body E g input = Panics r
        \<longrightarrow> Decrypt E (gcmCipher g) input = ([], Some (Errorf_wv ErrPanic r)))
   \<and> (steam_EncryptStream_body E s reader writer = (writer', Panics r)
        \<longrightarrow> steam_EncryptStream E s reader writer = (writer', Some (Errorf_wv ErrPanic r)))
   \<and> (steam_DecryptStream_body E s reader writer = (writer', Panics r)
        \<longrightarrow> steam_DecryptStream E s reader writer = (writer', Some (Errorf_wv ErrPanic r)))
   \<and> (valid_key (Key_Bytes E key) \<and> length (Key_Bytes E iv) \<noteq> 16 \<and> length input mod 16 = 0
        \<longrightarrow> (\<exists>r'. Encrypt E (NewCBC key iv) input = ([], Some (Errorf_wv ErrPanic r'))))
   \<and> (valid_key (Key_Bytes E (steam_key s)) \<and> length (Key_Bytes E (steam_iv s)) \<noteq> 16
        \<longrightarrow> (\<exists>r'. steam_EncryptStream E s reader writer = (writer, Some (Errorf_wv ErrPanic r'))
                  \<and> Encrypt E (newStreamToBlock s) input = ([], Some (Errorf_wv ErrPanic r'))))
   \<and> (valid_key (Key_Bytes E key) \<and> length (Key_Bytes E nonce) \<noteq> 12
        \<longrightarrow> (\<exists>r'. Encrypt E (NewGCM key nonce) input = ([], Some (Errorf_wv ErrPanic r'))))
   \<and> (valid_key (Key_Bytes E key) \<and> length (Key_Bytes E nonce) \<noteq> 12
        \<and> DecodeString (DefaultStringCodec E) input = Inr ciphertext
        \<longrightarrow> (\<exists>r'. Decrypt E (NewGCM key nonce) input = ([], Some (Errorf_wv ErrPanic r'))))"
proof -
  have pairs: "(snd (Encrypt E cipher input) \<noteq> None \<longrightarrow> fst (Encrypt E cipher input) = [])
   \<and> (snd (Decrypt E cipher input) \<noteq> None \<longrightarrow> fst (Decrypt E cipher input) = [])"
    using error_without_result [of E cipher input] by blast
  have bodies: "(cbc_Encrypt_body E c input = Panics r
        \<longrightarrow> Encrypt E (cbcCipher c) input = ([], Some (Errorf_wv ErrPanic r)))
   \<and> (cbc_Decrypt_body E c input = Panics r
        \<longrightarrow> Decrypt E (cbcCipher c) input = ([], Some (Errorf_wv ErrPanic r)))
   \<and> (simpleCBC_Encrypt_body E c input = Panics r
        \<longrightarrow> Encrypt E (simpleCBCCipher c) input = ([], Some (Errorf_wv ErrPanic r)))
   \<and> (simpleCBC_Decrypt_body E c input = Panics r
        \<longrightarrow> Decrypt E (simpleCBCCipher c) input = ([], Some (Errorf_wv ErrPanic r)))
   \<and> (streamToBlock_Encrypt_body E s input = Panics r
        \<longrightarrow> Encrypt E (streamToBlockCipher s) input = ([], Some (Errorf_wv ErrPanic r)))
   \<and> (streamToBlock_Decrypt_body E s input = Panics r
        \<longrightarrow> Decrypt E (streamToBlockCipher s) input = ([], Some (Errorf_wv ErrPanic r)))
   \<and> (gcm_Encrypt_body E g input = Panics r
        \<longrightarrow> Encrypt E (gcmCipher g) input = ([], Some (Errorf_wv ErrPanic r)))
   \<and> (gcm_Decrypt_body E g input = Panics r
        \<longrightarrow> Decrypt E (gcmCipher g) input = ([], Some (Errorf_wv ErrPanic r)))"
    by (simp add: cbc_Encrypt_def cbc_Decrypt_def simpleCBC_Encrypt_def simpleCBC_Decrypt_def
        streamToBlock_Encrypt_def streamToBlock_Decrypt_def gcm_Encrypt_def gcm_Decrypt_def
        recoverFromPanic_def)
  have streams: "(steam_EncryptStream_body E s reader writer = (writer', Panics r)
        \<longrightarrow> steam_EncryptStream E s reader writer = (writer', Some (Errorf_wv ErrPanic r)))
   \<and> (steam_DecryptStream_body E s reader writer = (writer', Panics r)
        \<longrightarrow> steam_DecryptStream E s reader writer = (writer', Some (Errorf_wv ErrPanic r)))"
    by (simp add: steam_EncryptStream_def steam_DecryptStream_def recoverPanic_def)
  have cbc: "valid_key (Key_Bytes E key) \<and> length (Key_Bytes E iv) \<noteq> 16 \<and> length input mod 16 = 0
        \<longrightarrow> (\<exists>r'. Encrypt E (NewCBC key iv) input = ([], Some (Errorf_wv ErrPanic r')))"
    using cbc_Encrypt_bad_iv [of E "\<lparr>cbc_key = key, cbc_iv = iv\<rparr>" input]
    by (simp add: NewCBC_def cbc_Encrypt_def recoverFromPanic_def)
  have stream: "\<exists>r'. steam_EncryptStream E s reader writer = (writer, Some (Errorf_wv ErrPanic r'))
                  \<and> Encrypt E (newStreamToBlock s) input = ([], Some (Errorf_wv ErrPanic r'))"
    if v: "valid_key (Key_Bytes E (steam_key s)) \<and> length (Key_Bytes E (steam_iv s)) \<noteq> 16"
  proof -
    obtain r' where b: "build E (cipherStream s) (Key_Bytes E (steam_key s))
        (Key_Bytes E (steam_iv s)) encrypt = Panics r'"
      using build_bad_iv v by blast
    have "steam_EncryptStream E s rd wr = (wr, Some (Errorf_wv ErrPanic r'))" for rd wr
      using b by (simp add: steam_EncryptStream_def steam_EncryptStream_body_def Let_def
          recoverPanic_def)
    then show ?thesis
      by (simp add: newStreamToBlock_def streamToBlock_Encrypt_def streamToBlock_Encrypt_body_def
          recoverFromPanic_def Let_def)
  qed
  have gcm: "valid_key (Key_Bytes E key) \<and> length (Key_Bytes E nonce) \<noteq> 12
        \<longrightarrow> (\<exists>r'. Encrypt E (NewGCM key nonce) input = ([], Some (Errorf_wv ErrPanic r')))"
    by (simp add: NewGCM_def gcm_Encrypt_cases)
  have gcm': "valid_key (Key_Bytes E key) \<and> length (Key_Bytes E nonce) \<noteq> 12
        \<and> DecodeString (DefaultStringCodec E) input = Inr ciphertext
        \<longrightarrow> (\<exists>r'. Decrypt E (NewGCM key nonce) input = ([], Some (Errorf_wv ErrPanic r')))"
    by (simp add: NewGCM_def gcm_Decrypt_cases)
  show ?thesis
    using pairs bodies streams cbc stream gcm gcm' by simp
qed

theorem panics_become_errors_witness:
  "(\<exists>r. Encrypt example_env (NewCBC (Bytes (replicate 16 1)) (Bytes [1, 2, 3])) (replicate 16 0x41)
        = ([], Some (Errorf_wv ErrPanic r)))
   \<and> (\<exists>r. Encrypt example_env (NewGCM (Bytes (replicate 32 1)) (Bytes [1, 2, 3])) [0x68, 0x69]
        = ([], Some (Errorf_wv ErrPanic r)))
   \<and> (\<exists>r. steam_EncryptStream example_env (NewCTRStream (Bytes (replicate 32 1)) (Bytes [1, 2, 3]))
          (bytes_NewReader [0x68, 0x69]) new_bytes_Buffer
        = (new_bytes_Buffer, Some (Errorf_wv ErrPanic r)))
   \<and> cbc_Encrypt_body example_env \<lparr>cbc_key = Bytes (replicate 16 1), cbc_iv = Bytes [1, 2, 3]\<rparr>
        (replicate 16 0x41)
       = Panics ''cipher.NewCBCEncrypter: IV length must equal block size''
   \<and> Encrypt example_env (cbcCipher \<lparr>cbc_key = Bytes (replicate 16 1), cbc_iv = Bytes [1, 2, 3]\<rparr>)
        (replicate 16 0x41)
       = ([], Some (Errorf_wv ErrPanic ''cipher.NewCBCEncrypter: IV length must equal block size''))"
proof -
  let ?s = "NewCTRStream (Bytes (replicate 32 1)) (Bytes [1, 2, 3])"
  let ?c = "\<lparr>cbc_key = Bytes (replicate 16 1), cbc_iv = Bytes [1, 2, 3]\<rparr>"
  let ?m = "''cipher.NewCBCEncrypter: IV length must equal block size''"
  note t = panics_become_errors [where E = example_env and iv = "Bytes [1, 2, 3]"
      and nonce = "Bytes [1, 2, 3]" and s = ?s and reader = "bytes_NewReader [0x68, 0x69]"
      and writer = new_bytes_Buffer and writer' = new_bytes_Buffer and c = ?c
      and g = "\<lparr>gcm_key = Bytes [], gcm_nonce = Bytes []\<rparr>" and cipher = "cbcCipher ?c"
      and ciphertext = "[]" and r = ?m]
  note t1 = t [where input = "replicate 16 0x41" and key = "Bytes (replicate 16 1)"]
  note t2 = t [where input = "[0x68, 0x69]" and key = "Bytes (replicate 32 1)"]
  note bodies1 = t1 [THEN conjunct2, THEN conjunct2, THEN conjunct2]
  note triggers1 = bodies1 [THEN conjunct2, THEN conjunct2, THEN conjunct2, THEN conjunct2,
      THEN conjunct2, THEN conjunct2, THEN conjunct2, THEN conjunct2, THEN conjunct2,
      THEN conjunct2]
  note triggers2 = t2 [THEN conjunct2, THEN conjunct2, THEN conjunct2, THEN conjunct2,
      THEN conjunct2, THEN conjunct2, THEN conjunct2, THEN conjunct2, THEN conjunct2,
      THEN conjunct2, THEN conjunct2, THEN conjunct2, THEN conjunct2]
  have k: "valid_key (Key_Bytes example_env (Bytes (replicate 16 1)))"
    "valid_key (Key_Bytes example_env (Bytes (replicate 32 1)))"
    "length (Key_Bytes example_env (Bytes [1, 2, 3])) \<noteq> 16"
    "length (Key_Bytes example_env (Bytes [1, 2, 3])) \<noteq> 12"
    "length (replicate 16 (0x41 :: byte)) mod 16 = 0"
    "valid_key (Key_Bytes example_env (steam_key ?s))"
    "length (Key_Bytes example_env (steam_iv ?s)) \<noteq> 16"
    by (simp_all add: valid_key_def Bytes_def NewCTRStream_def)
  have b: "cbc_Encrypt_body example_env ?c (replicate 16 0x41) = Panics ?m"
    by (rule cbc_Encrypt_bad_iv) (simp_all add: valid_key_def Bytes_def)
  have "\<exists>r. Encrypt example_env (NewCBC (Bytes (replicate 16 1)) (Bytes [1, 2, 3]))
          (replicate 16 0x41) = ([], Some (Errorf_wv ErrPanic r))"
    using triggers1 [THEN conjunct1] k
    by blast
  moreover have "\<exists>r. Encrypt example_env (NewGCM (Bytes (replicate 32 1)) (Bytes [1, 2, 3]))
          [0x68, 0x69] = ([], Some (Errorf_wv ErrPanic r))"
    using triggers2 [THEN conjunct2, THEN conjunct2, THEN conjunct1] k
    by blast
  moreover have "\<exists>r. steam_EncryptStream example_env ?s (bytes_NewReader [0x68, 0x69])
        new_bytes_Buffer = (new_bytes_Buffer, Some (Errorf_wv ErrPanic r))"
    using triggers2 [THEN conjunct2, THEN conjunct1] k
    by blast
  moreover have "Encrypt example_env (cbcCipher ?c) (replicate 16 0x41)
       = ([], Some (Errorf_wv ErrPanic ?m))"
    using bodies1 [THEN conjunct1] b
    by (rule mp)
  ultimately show ?thesis
    using b by (intro conjI)
qed

section \<open>The round trip\<close>

lemma go_copy_same_length: "length src = length dst \<Longrightarrow> go_copy dst src = src"
  by (simp add: go_copy_def)

lemma pkcs7_Pad_eq:
  assumes "2 \<le> n" and "n < 256"
  shows "pkcs7_Pad n buf =
           Returns (buf @ replicate (n - length buf mod n) (of_nat (n - length buf mod n)))"
  using assms by (simp add: pkcs7_Pad_def Let_def)

lemma padded_length:
  assumes "0 < (n :: nat)"
  shows "(m + (n - m mod n)) mod n = 0"
proof -
  have r: "m mod n + (n - m mod n) = n"
    using assms by simp
  have "(m + (n - m mod n)) mod n = (m mod n + (n - m mod n)) mod n"
    by (rule mod_add_left_eq [symmetric])
  then show ?thesis
    by (simp only: r mod_self)
qed

lemma pkcs7_Unpad_Pad:
  assumes "2 \<le> n" and "n < 256"
  shows "pkcs7_Unpad n (buf @ replicate (n - length buf mod n) (of_nat (n - length buf mod n)))
           = Returns (buf, None)"
proof -
  let ?k = "n - length buf mod n"
  let ?padded = "buf @ replicate ?k (of_nat ?k :: byte)"
  have r: "length buf mod n < n"
    using assms by simp
  have k: "0 < ?k" "?k \<le> n" "?k < 256"
    using assms r by arith+
  have u: "unat (of_nat ?k :: byte) = ?k"
    using k(3) by (simp add: unat_of_nat)
  have l: "last ?padded = of_nat ?k"
    using k(1) by simp
  have m: "length ?padded mod n = 0"
    using padded_length [of n "length buf"] assms by simp
  have ne: "length ?padded \<noteq> 0"
    using k(1) by simp
  have d: "drop (length ?padded - ?k) ?padded = replicate ?k (of_nat ?k)"
    "take (length ?padded - ?k) ?padded = buf"
    by simp_all
  have a: "list_all (\<lambda>b. b = (of_nat ?k :: byte)) (replicate ?k (of_nat ?k))"
    by (simp add: list_all_iff)
  have n: "\<not> (n \<le> 1 \<or> 256 \<le> n)" "\<not> n < ?k" "?k \<noteq> 0"
    using assms k r by arith+
  show ?thesis
    unfolding pkcs7_Unpad_def Let_def l u d
    by (simp only: n m ne a if_False simp_thms not_less)
qed

lemma cbc_Encrypt_whole_blocks:
  assumes "valid_key (Key_Bytes E (cbc_key c))" and "length (Key_Bytes E (cbc_iv c)) = 16"
    and "length plainText mod 16 = 0"
  shows "cbc_Encrypt E c plainText =
           (EncodeToString (DefaultStringCodec E)
              (Key_Bytes E (cbc_iv c)
               @ go_copy (replicate (length plainText) 0)
                   (cbc_encrypt E (Key_Bytes E (cbc_key c)) (Key_Bytes E (cbc_iv c)) plainText)),
            None)"
  using assms
  by (simp add: cbc_Encrypt_def cbc_Encrypt_body_def recoverFromPanic_def aes_NewCipher_valid
      cipher_NewCBCEncrypter_def aes_BlockSize_def Let_def go_copy_def)

lemma cbc_Encrypt_aligned:
  assumes "valid_key (Key_Bytes E (cbc_key c))" and "length (Key_Bytes E (cbc_iv c)) = 16"
    and "length plainText mod 16 = 0"
    and "length (cbc_encrypt E (Key_Bytes E (cbc_key c)) (Key_Bytes E (cbc_iv c)) plainText)
           = length plainText"
  shows "cbc_Encrypt E c plainText =
           (EncodeToString (DefaultStringCodec E)
              (Key_Bytes E (cbc_iv c)
               @ cbc_encrypt E (Key_Bytes E (cbc_key c)) (Key_Bytes E (cbc_iv c)) plainText), None)"
  using cbc_Encrypt_whole_blocks [OF assms(1-3)] assms(4) by (simp add: go_copy_same_length)

lemma simpleCBC_Encrypt_padded:
  assumes "valid_key (Key_Bytes E (cbc_key c))" and "length (Key_Bytes E (cbc_iv c)) = 16"
  shows "\<exists>tail. simpleCBC_Encrypt E c plainText =
           (EncodeToString (DefaultStringCodec E) (Key_Bytes E (cbc_iv c) @ tail), None)"
proof -
  define padded where
    "padded = plainText @ replicate (16 - length plainText mod 16)
                (of_nat (16 - length plainText mod 16) :: byte)"
  have p: "pkcs7_Pad aes_BlockSize plainText = Returns padded"
    unfolding aes_BlockSize_def padded_def by (rule pkcs7_Pad_eq) simp_all
  have m: "length padded mod 16 = 0"
    using padded_length [of 16 "length plainText"] by (simp add: padded_def)
  have "simpleCBC_Encrypt E c plainText = cbc_Encrypt E c padded"
    by (simp add: simpleCBC_Encrypt_def simpleCBC_Encrypt_body_def p recoverFromPanic_def)
  then show ?thesis
    using cbc_Encrypt_whole_blocks [OF assms m] by auto
qed

lemma cbc_roundtrip:
  assumes "codec_ok (DefaultStringCodec E)" and "cbc_ok E"
    and "valid_key (Key_Bytes E (cbc_key c))" and "length (Key_Bytes E (cbc_iv c)) = 16"
    and "length plainText mod 16 = 0"
  shows "snd (cbc_Encrypt E c plainText) = None
       \<and> cbc_Decrypt E c (fst (cbc_Encrypt E c plainText)) = (plainText, None)"
proof -
  let ?key = "Key_Bytes E (cbc_key c)" and ?iv = "Key_Bytes E (cbc_iv c)"
  let ?ct = "cbc_encrypt E ?key ?iv plainText"
  have "length ?ct = length plainText \<and> cbc_decrypt E ?key ?iv ?ct = plainText"
    using assms(2-5) by (simp add: cbc_ok_def)
  then have c: "length ?ct = length plainText" "cbc_decrypt E ?key ?iv ?ct = plainText"
    by simp_all
  have e: "cbc_Encrypt E c plainText = (EncodeToString (DefaultStringCodec E) (?iv @ ?ct), None)"
    using cbc_Encrypt_aligned [OF assms(3-5) c(1)] .
  have d: "DecodeString (DefaultStringCodec E) (EncodeToString (DefaultStringCodec E) (?iv @ ?ct))
             = Inr (?iv @ ?ct)"
    using assms(1) by (simp add: codec_ok_def)
  have s: "16 \<le> length (?iv @ ?ct)" "length (?iv @ ?ct) mod 16 = 0"
    using assms(4,5) c(1) by simp_all
  have "cbc_Decrypt E c (EncodeToString (DefaultStringCodec E) (?iv @ ?ct))
          = (go_copy (drop 16 (?iv @ ?ct))
               (cbc_decrypt E ?key (take 16 (?iv @ ?ct)) (drop 16 (?iv @ ?ct))), None)"
    using cbc_Decrypt_well_sized [OF d assms(3) s] .
  then have "cbc_Decrypt E c (EncodeToString (DefaultStringCodec E) (?iv @ ?ct)) = (plainText, None)"
    using assms(4) c by (simp add: go_copy_same_length)
  then show ?thesis
    by (simp add: e)
qed

lemma simpleCBC_roundtrip:
  assumes "codec_ok (DefaultStringCodec E)" and "cbc_ok E"
    and "valid_key (Key_Bytes E (cbc_key c))" and "length (Key_Bytes E (cbc_iv c)) = 16"
  shows "snd (simpleCBC_Encrypt E c plainText) = None
       \<and> simpleCBC_Decrypt E c (fst (simpleCBC_Encrypt E c plainText)) = (plainText, None)"
proof -
  define padded where
    "padded = plainText @ replicate (16 - length plainText mod 16)
                (of_nat (16 - length plainText mod 16) :: byte)"
  have p: "pkcs7_Pad aes_BlockSize plainText = Returns padded"
    unfolding aes_BlockSize_def padded_def by (rule pkcs7_Pad_eq) simp_all
  have u: "pkcs7_Unpad aes_BlockSize padded = Returns (plainText, None)"
    unfolding aes_BlockSize_def padded_def by (rule pkcs7_Unpad_Pad) simp_all
  have m: "length padded mod 16 = 0"
    using padded_length [of 16 "length plainText"] by (simp add: padded_def)
  note r = cbc_roundtrip [OF assms m]
  have e: "simpleCBC_Encrypt E c plainText = cbc_Encrypt E c padded"
    by (simp add: simpleCBC_Encrypt_def simpleCBC_Encrypt_body_def p recoverFromPanic_def)
  have "simpleCBC_Decrypt E c (fst (cbc_Encrypt E c padded)) = (plainText, None)"
    using r by (simp add: simpleCBC_Decrypt_def simpleCBC_Decrypt_body_def u recoverFromPanic_def)
  then show ?thesis
    using r by (simp add: e)
qed

lemma build_ok:
  assumes "valid_key key" and "length iv = 16"
  shows "build E b key iv dir =
           Returns (Inr (case b of
                           cfbStreamBuilder \<Rightarrow>
                             (case dir of encrypt \<Rightarrow> cfb_encrypt E key iv
                                        | decrypt \<Rightarrow> cfb_decrypt E key iv)
                         | ofbStreamBuilder \<Rightarrow> ofb_xor E key iv
                         | ctrStreamBuilder \<Rightarrow> ctr_xor E key iv))"
  using assms
  by (cases b; cases dir)
     (simp_all add: aes_NewCipher_valid cipher_NewCFBEncrypter_def cipher_NewCFBDecrypter_def
        cipher_NewOFB_def cipher_NewCTR_def aes_BlockSize_def)

lemma Write_to_Buffer:
  "room w = None \<Longrightarrow> Writer_Write w p = (w\<lparr>written := written w @ p\<rparr>, Returns None)"
  by (simp add: Writer_Write_def)

lemma io_Copy_to_Buffer:
  "room w = None \<Longrightarrow>
   io_Copy stream w (bytes_NewReader b) = (w\<lparr>written := written w @ stream b\<rparr>, Returns None)"
  by (simp add: io_Copy_def Write_to_Buffer bytes_NewReader_def)

lemma steam_EncryptStream_ok:
  assumes "valid_key (Key_Bytes E (steam_key s))" and "length (Key_Bytes E (steam_iv s)) = 16"
    and "build E (cipherStream s) (Key_Bytes E (steam_key s)) (Key_Bytes E (steam_iv s)) encrypt
           = Returns (Inr stream)"
  shows "steam_EncryptStream E s (bytes_NewReader p) new_bytes_Buffer
           = (new_bytes_Buffer\<lparr>written := Key_Bytes E (steam_iv s) @ stream p\<rparr>, None)"
  using assms(3)
  by (simp add: steam_EncryptStream_def steam_EncryptStream_body_def Let_def Write_to_Buffer
      io_Copy_to_Buffer new_bytes_Buffer_def recoverPanic_def)

lemma steam_DecryptStream_ok:
  assumes "valid_key (Key_Bytes E (steam_key s))" and "length iv = 16"
    and "build E (cipherStream s) (Key_Bytes E (steam_key s)) iv decrypt = Returns (Inr stream)"
  shows "steam_DecryptStream E s (bytes_NewReader (iv @ ct)) new_bytes_Buffer
           = (new_bytes_Buffer\<lparr>written := stream ct\<rparr>, None)"
proof -
  have r: "io_ReadFull (bytes_NewReader (iv @ ct)) aes_BlockSize
             = Returns (Inr (iv, bytes_NewReader ct))"
    using assms(2) by (simp add: io_ReadFull_def bytes_NewReader_def aes_BlockSize_def)
  show ?thesis
    using assms(3)
    by (simp add: steam_DecryptStream_def steam_DecryptStream_body_def Let_def r
        io_Copy_to_Buffer new_bytes_Buffer_def recoverPanic_def)
qed

lemma streamToBlock_roundtrip:
  assumes "codec_ok (DefaultStringCodec E)" and "streams_ok E"
    and "valid_key (Key_Bytes E (steam_key s))" and "length (Key_Bytes E (steam_iv s)) = 16"
  shows "snd (streamToBlock_Encrypt E s plainText) = None
       \<and> streamToBlock_Decrypt E s (fst (streamToBlock_Encrypt E s plainText)) = (plainText, None)"
proof -
  let ?key = "Key_Bytes E (steam_key s)" and ?iv = "Key_Bytes E (steam_iv s)"
  obtain f where f: "build E (cipherStream s) ?key ?iv encrypt = Returns (Inr f)"
    using build_ok [OF assms(3,4)] by blast
  obtain g where g: "build E (cipherStream s) ?key ?iv decrypt = Returns (Inr g)"
    using build_ok [OF assms(3,4)] by blast
  have inv: "g (f plainText) = plainText"
  proof -
    have "cfb_decrypt E ?key ?iv (cfb_encrypt E ?key ?iv plainText) = plainText
        \<and> ofb_xor E ?key ?iv (ofb_xor E ?key ?iv plainText) = plainText
        \<and> ctr_xor E ?key ?iv (ctr_xor E ?key ?iv plainText) = plainText"
      using assms(2-4) by (simp add: streams_ok_def)
    then show ?thesis
      using f g unfolding build_ok [OF assms(3,4)]
      by (cases "cipherStream s") auto
  qed
  let ?c = "EncodeToString (DefaultStringCodec E) (?iv @ f plainText)"
  have e: "streamToBlock_Encrypt E s plainText = (?c, None)"
    by (simp add: streamToBlock_Encrypt_def streamToBlock_Encrypt_body_def Let_def
        steam_EncryptStream_ok [OF assms(3,4) f] recoverFromPanic_def)
  have d: "DecodeString (DefaultStringCodec E) ?c = Inr (?iv @ f plainText)"
    using assms(1) by (simp add: codec_ok_def)
  have "streamToBlock_Decrypt E s ?c = (plainText, None)"
    by (simp add: streamToBlock_Decrypt_def streamToBlock_Decrypt_body_def Let_def d
        steam_DecryptStream_ok [OF assms(3,4) g] recoverFromPanic_def inv)
  then show ?thesis
    by (simp add: e)
qed

lemma gcm_roundtrip:
  assumes "codec_ok (DefaultStringCodec E)" and "gcm_ok E"
    and "valid_key (Key_Bytes E (gcm_key g))" and "length (Key_Bytes E (gcm_nonce g)) = 12"
  shows "snd (gcm_Encrypt E g plainText) = None
       \<and> gcm_Decrypt E g (fst (gcm_Encrypt E g plainText)) = (plainText, None)"
proof -
  let ?key = "Key_Bytes E (gcm_key g)" and ?nonce = "Key_Bytes E (gcm_nonce g)"
  have o: "gcm_open E ?key ?nonce (gcm_seal E ?key ?nonce plainText) = Some plainText"
    using assms(2-4) by (simp add: gcm_ok_def)
  have d: "DecodeString (DefaultStringCodec E)
             (EncodeToString (DefaultStringCodec E) (gcm_seal E ?key ?nonce plainText))
           = Inr (gcm_seal E ?key ?nonce plainText)"
    using assms(1) by (simp add: codec_ok_def)
  show ?thesis
    using assms(3,4) by (simp add: gcm_Encrypt_cases gcm_Decrypt_cases d o)
qed

lemma NewAesKey_valid:
  assumes "scrypt_ok E"
  shows "valid_key (Key_Bytes E (NewAesKey E passphrase options))"
  using assms
  by (auto simp: valid_key_def length_keyGen_Bytes NewAesKey_def Let_def Aes128_def Aes192_def
      Aes256_def)

lemma NewIv_length:
  assumes "scrypt_ok E"
  shows "length (Key_Bytes E (NewIv E passphrase [])) = 16"
  using assms
  by (simp add: length_keyGen_Bytes NewIv_def apply_options_def newKeyGen_def aes_BlockSize_def)

lemma NewNonce_length:
  assumes "scrypt_ok E"
  shows "length (Key_Bytes E (NewNonce E passphrase [])) = 12"
  using assms
  by (simp add: length_keyGen_Bytes NewNonce_def apply_options_def newKeyGen_def NonceSize_def)

lemma NewRandomIv_length:
  assumes "scrypt_ok E" and "entropy_ok R"
  shows "length (Key_Bytes E (NewRandomIv E R)) = 16"
  using assms NewIv_length [OF assms(1)]
  by (simp add: NewRandomIv_def entropy_ok_def Bytes_def)

lemma Simple_well_keyed:
  assumes "scrypt_ok E" and "entropy_ok R"
  shows "well_keyed E (SimpleCBC E R passphrase)"
    and "well_keyed E (SimpleCFB E R passphrase)"
    and "well_keyed E (SimpleOFB E R passphrase)"
    and "well_keyed E (SimpleCTR E R passphrase)"
  using NewAesKey_valid [OF assms(1)] NewRandomIv_length [OF assms]
  by (simp_all add: SimpleCBC_def SimpleCFB_def SimpleOFB_def SimpleCTR_def newStreamToBlock_def
      SimpleCFBStream_def SimpleOFBStream_def SimpleCTRStream_def NewCFBStream_def
      NewOFBStream_def NewCTRStream_def)

lemma SimpleGCM_well_keyed:
  assumes "scrypt_ok E"
  shows "well_keyed E (SimpleGCM E keyPassphrase noncePassphrase)"
  using NewAesKey_valid [OF assms] NewNonce_length [OF assms]
  by (simp add: SimpleGCM_def NewGCM_def)

lemma well_keyed_roundtrip:
  assumes "collaborators_ok E" and "well_keyed E c" and "aligned c plainText"
  shows "snd (Encrypt E c plainText) = None
       \<and> Decrypt E c (fst (Encrypt E c plainText)) = (plainText, None)"
proof (cases c)
  case (cbcCipher x)
  then show ?thesis
    using assms cbc_roundtrip [of E x plainText] by (simp add: collaborators_ok_def)
next
  case (simpleCBCCipher x)
  then show ?thesis
    using assms simpleCBC_roundtrip [of E x plainText] by (simp add: collaborators_ok_def)
next
  case (streamToBlockCipher x)
  then show ?thesis
    using assms streamToBlock_roundtrip [of E x plainText] by (simp add: collaborators_ok_def)
next
  case (gcmCipher x)
  then show ?thesis
    using assms gcm_roundtrip [of E x plainText] by (simp add: collaborators_ok_def)
qed

text \<open>
  C1: when the collaborators meet their contracts, \<^verbatim>\<open>Decrypt(Encrypt(p))\<close> on the same
  instance returns \<open>p\<close> and no error, for every instance with a key of valid length and an
  IV of 16 bytes (a nonce of 12 bytes for GCM), whichever kind of \<^verbatim>\<open>Key\<close> holds them, and
  every plaintext (of whole blocks for \<^verbatim>\<open>NewCBC\<close>): for \<^verbatim>\<open>NewCBC\<close>, \<^verbatim>\<open>NewCFB\<close>,
  \<^verbatim>\<open>NewOFB\<close>, \<^verbatim>\<open>NewCTR\<close> and \<^verbatim>\<open>NewGCM\<close> on raw bytes, and for \<^verbatim>\<open>SimpleCBC\<close>,
  \<^verbatim>\<open>SimpleCFB\<close>, \<^verbatim>\<open>SimpleOFB\<close>, \<^verbatim>\<open>SimpleCTR\<close> and \<^verbatim>\<open>SimpleGCM\<close> with any passphrase.
\<close>

theorem Decrypt_Encrypt_roundtrip:
  assumes "collaborators_ok E"
  shows "(well_keyed E c \<and> aligned c plainText \<longrightarrow> roundtrips E c plainText)
       \<and> (valid_key key \<and> length iv = 16 \<and> length plainText mod 16 = 0
            \<longrightarrow> roundtrips E (NewCBC (Bytes key) (Bytes iv)) plainText)
       \<and> (valid_key key \<and> length iv = 16
            \<longrightarrow> roundtrips E (NewCFB (Bytes key) (Bytes iv)) plainText
              \<and> roundtrips E (NewOFB (Bytes key) (Bytes iv)) plainText
              \<and> roundtrips E (NewCTR (Bytes key) (Bytes iv)) plainText)
       \<and> (valid_key key \<and> length nonce = 12
            \<longrightarrow> roundtrips E (NewGCM (Bytes key) (Bytes nonce)) plainText)
       \<and> (entropy_ok R
            \<longrightarrow> roundtrips E (SimpleCBC E R passphrase) plainText
              \<and> roundtrips E (SimpleCFB E R passphrase) plainText
              \<and> roundtrips E (SimpleOFB E R passphrase) plainText
              \<and> roundtrips E (SimpleCTR E R passphrase) plainText)
       \<and> roundtrips E (SimpleGCM E passphrase noncePassphrase) plainText"
proof -
  have s: "scrypt_ok E"
    using assms by (simp add: collaborators_ok_def)
  have rt: "well_keyed E x \<and> aligned x plainText \<longrightarrow> roundtrips E x plainText" for x
    using well_keyed_roundtrip [OF assms, of x plainText] by (simp add: roundtrips_def)
  have cbc: "valid_key key \<and> length iv = 16 \<and> length plainText mod 16 = 0
            \<longrightarrow> roundtrips E (NewCBC (Bytes key) (Bytes iv)) plainText"
    using rt [of "NewCBC (Bytes key) (Bytes iv)"] by (simp add: NewCBC_def Bytes_def)
  have streams: "valid_key key \<and> length iv = 16
            \<longrightarrow> roundtrips E (NewCFB (Bytes key) (Bytes iv)) plainText
              \<and> roundtrips E (NewOFB (Bytes key) (Bytes iv)) plainText
              \<and> roundtrips E (NewCTR (Bytes key) (Bytes iv)) plainText"
    using rt [of "NewCFB (Bytes key) (Bytes iv)"] rt [of "NewOFB (Bytes key) (Bytes iv)"]
      rt [of "NewCTR (Bytes key) (Bytes iv)"]
    by (simp add: NewCFB_def NewOFB_def NewCTR_def newStreamToBlock_def
        NewCFBStream_def NewOFBStream_def NewCTRStream_def Bytes_def)
  have gcm: "valid_key key \<and> length nonce = 12
            \<longrightarrow> roundtrips E (NewGCM (Bytes key) (Bytes nonce)) plainText"
    using rt [of "NewGCM (Bytes key) (Bytes nonce)"] by (simp add: NewGCM_def Bytes_def)
  have al: "aligned (SimpleCBC E R passphrase) plainText"
    "aligned (SimpleCFB E R passphrase) plainText"
    "aligned (SimpleOFB E R passphrase) plainText"
    "aligned (SimpleCTR E R passphrase) plainText"
    "aligned (SimpleGCM E passphrase noncePassphrase) plainText"
    by (simp_all add: SimpleCBC_def SimpleCFB_def SimpleOFB_def SimpleCTR_def SimpleGCM_def
        newStreamToBlock_def NewGCM_def)
  have simple: "entropy_ok R
            \<longrightarrow> roundtrips E (SimpleCBC E R passphrase) plainText
              \<and> roundtrips E (SimpleCFB E R passphrase) plainText
              \<and> roundtrips E (SimpleOFB E R passphrase) plainText
              \<and> roundtrips E (SimpleCTR E R passphrase) plainText"
    using rt [of "SimpleCBC E R passphrase"] rt [of "SimpleCFB E R passphrase"]
      rt [of "SimpleOFB E R passphrase"] rt [of "SimpleCTR E R passphrase"]
      Simple_well_keyed [OF s, of R passphrase] al
    by blast
  have simple_gcm: "roundtrips E (SimpleGCM E passphrase noncePassphrase) plainText"
    using rt [of "SimpleGCM E passphrase noncePassphrase"]
      SimpleGCM_well_keyed [OF s, of passphrase noncePassphrase] al(5)
    by blast
  show ?thesis
    using rt [of c] cbc streams gcm simple simple_gcm by blast
qed

theorem Decrypt_Encrypt_roundtrip_witness:
  "collaborators_ok example_env
   \<and> Decrypt example_env (NewCBC (Bytes (replicate 16 1)) (Bytes (replicate 16 2)))
       (fst (Encrypt example_env (NewCBC (Bytes (replicate 16 1)) (Bytes (replicate 16 2)))
              (replicate 32 0x41)))
       = (replicate 32 0x41, None)
   \<and> Decrypt example_env (NewCTR (Bytes (replicate 24 1)) (Bytes (replicate 16 2)))
       (fst (Encrypt example_env (NewCTR (Bytes (replicate 24 1)) (Bytes (replicate 16 2)))
              [0x68, 0x69]))
       = ([0x68, 0x69], None)
   \<and> Decrypt example_env
       (SimpleCBC example_env \<lparr>rand_iv = replicate 16 7, rand_err = None, sprint_seed = []\<rparr> [0x70])
       (fst (Encrypt example_env
          (SimpleCBC example_env \<lparr>rand_iv = replicate 16 7, rand_err = None, sprint_seed = []\<rparr>
             [0x70])
          [0x68, 0x69]))
       = ([0x68, 0x69], None)
   \<and> Decrypt example_env (SimpleGCM example_env [0x70] [0x6e])
       (fst (Encrypt example_env (SimpleGCM example_env [0x70] [0x6e]) [0x68, 0x69]))
       = ([0x68, 0x69], None)"
proof -
  let ?R = "\<lparr>rand_iv = replicate 16 7, rand_err = None, sprint_seed = []\<rparr>"
  let ?cbc = "NewCBC (Bytes (replicate 16 1)) (Bytes (replicate 16 2))"
  note t = Decrypt_Encrypt_roundtrip [OF collaborators_ok_example, where c = ?cbc and R = ?R
      and passphrase = "[0x70]" and noncePassphrase = "[0x6e]" and nonce = "replicate 12 3"
      and iv = "replicate 16 2"]
  have k: "valid_key (replicate 16 1)" "valid_key (replicate 24 1)"
    "length (replicate 16 (2 :: byte)) = 16" "length (replicate 32 (0x41 :: byte)) mod 16 = 0"
    "entropy_ok ?R"
    by (simp_all add: valid_key_def entropy_ok_def)
  have "roundtrips example_env (NewCBC (Bytes (replicate 16 1)) (Bytes (replicate 16 2)))
          (replicate 32 0x41)"
    using t [where plainText = "replicate 32 0x41" and key = "replicate 16 1"] k by blast
  moreover have "roundtrips example_env (NewCTR (Bytes (replicate 24 1)) (Bytes (replicate 16 2)))
          [0x68, 0x69]"
    using t [where plainText = "[0x68, 0x69]" and key = "replicate 24 1"] k by blast
  moreover have "roundtrips example_env (SimpleCBC example_env ?R [0x70]) [0x68, 0x69]"
    using t [where plainText = "[0x68, 0x69]" and key = "replicate 24 1"] k by blast
  moreover have "roundtrips example_env (SimpleGCM example_env [0x70] [0x6e]) [0x68, 0x69]"
    using t [where plainText = "[0x68, 0x69]" and key = "replicate 24 1"] by blast
  ultimately show ?thesis
    using collaborators_ok_example unfolding roundtrips_def by blast
qed

section \<open>The IV of the simple constructors\<close>

lemma streamToBlock_Encrypt_ok:
  assumes "valid_key (Key_Bytes E (steam_key s))" and "length (Key_Bytes E (steam_iv s)) = 16"
  shows "\<exists>tail. streamToBlock_Encrypt E s plainText =
           (EncodeToString (DefaultStringCodec E) (Key_Bytes E (steam_iv s) @ tail), None)"
proof -
  obtain f where f: "build E (cipherStream s) (Key_Bytes E (steam_key s))
      (Key_Bytes E (steam_iv s)) encrypt = Returns (Inr f)"
    using build_ok [OF assms] by blast
  show ?thesis
    by (auto simp: streamToBlock_Encrypt_def streamToBlock_Encrypt_body_def Let_def
        steam_EncryptStream_ok [OF assms f] recoverFromPanic_def)
qed

lemma Encrypt_starts_with_iv:
  assumes "codec_ok (DefaultStringCodec E)"
    and "c = simpleCBCCipher x \<and> valid_key (Key_Bytes E (cbc_key x))
            \<and> Key_Bytes E (cbc_iv x) = iv
         \<or> c = streamToBlockCipher s \<and> valid_key (Key_Bytes E (steam_key s))
            \<and> Key_Bytes E (steam_iv s) = iv"
    and "length iv = 16"
  shows "\<exists>d. Encrypt E c plainText = (EncodeToString (DefaultStringCodec E) d, None)
           \<and> DecodeString (DefaultStringCodec E) (EncodeToString (DefaultStringCodec E) d) = Inr d
           \<and> take 16 d = iv"
proof -
  have "\<exists>tail. Encrypt E c plainText = (EncodeToString (DefaultStringCodec E) (iv @ tail), None)"
    using assms(2,3) simpleCBC_Encrypt_padded [of E x plainText]
      streamToBlock_Encrypt_ok [of E s plainText]
    by auto
  then obtain tail where
    "Encrypt E c plainText = (EncodeToString (DefaultStringCodec E) (iv @ tail), None)"
    by blast
  moreover have "DecodeString (DefaultStringCodec E)
      (EncodeToString (DefaultStringCodec E) (iv @ tail)) = Inr (iv @ tail)"
    using assms(1) by (simp add: codec_ok_def)
  moreover have "take 16 (iv @ tail) = iv"
    using assms(3) by simp
  ultimately show ?thesis by blast
qed

text \<open>
  C7: the random IV of a simple constructor is an argument of the constructor and of
  nothing else. Any two \<^verbatim>\<open>Encrypt\<close> calls on such an instance succeed and return strings
  that decode to bytes starting with the same 16 bytes, the IV fixed at construction; any
  two \<^verbatim>\<open>EncryptStream\<close> calls of a simple stream into fresh buffers write these 16 bytes
  first.
\<close>

theorem Simple_iv_fixed_at_construction:
  assumes "codec_ok (DefaultStringCodec E)" and "scrypt_ok E" and "entropy_ok R"
    and "c = SimpleCBC E R passphrase \<or> c = SimpleCFB E R passphrase
         \<or> c = SimpleOFB E R passphrase \<or> c = SimpleCTR E R passphrase"
    and "s = SimpleCFBStream E R passphrase \<or> s = SimpleOFBStream E R passphrase
         \<or> s = SimpleCTRStream E R passphrase"
  shows "(\<exists>d1 d2. Encrypt E c plainText1 = (EncodeToString (DefaultStringCodec E) d1, None)
            \<and> Encrypt E c plainText2 = (EncodeToString (DefaultStringCodec E) d2, None)
            \<and> DecodeString (DefaultStringCodec E) (fst (Encrypt E c plainText1)) = Inr d1
            \<and> DecodeString (DefaultStringCodec E) (fst (Encrypt E c plainText2)) = Inr d2
            \<and> take 16 d1 = Key_Bytes E (NewRandomIv E R)
            \<and> take 16 d2 = Key_Bytes E (NewRandomIv E R))
       \<and> (\<exists>w1 w2. steam_EncryptStream E s (bytes_NewReader plainText1) new_bytes_Buffer = (w1, None)
            \<and> steam_EncryptStream E s (bytes_NewReader plainText2) new_bytes_Buffer = (w2, None)
            \<and> take 16 (written w1) = Key_Bytes E (NewRandomIv E R)
            \<and> take 16 (written w2) = Key_Bytes E (NewRandomIv E R))"
proof -
  let ?iv = "Key_Bytes E (NewRandomIv E R)"
  have k: "valid_key (Key_Bytes E (NewAesKey E passphrase []))"
    using NewAesKey_valid [OF assms(2)] .
  have l: "length ?iv = 16"
    using NewRandomIv_length [OF assms(2,3)] .
  have shape: "(\<exists>x. c = simpleCBCCipher x \<and> valid_key (Key_Bytes E (cbc_key x))
                   \<and> Key_Bytes E (cbc_iv x) = ?iv)
             \<or> (\<exists>y. c = streamToBlockCipher y \<and> valid_key (Key_Bytes E (steam_key y))
                   \<and> Key_Bytes E (steam_iv y) = ?iv)"
    using assms(4) k
    by (auto simp: SimpleCBC_def SimpleCFB_def SimpleOFB_def SimpleCTR_def newStreamToBlock_def
        SimpleCFBStream_def SimpleOFBStream_def SimpleCTRStream_def NewCFBStream_def
        NewOFBStream_def NewCTRStream_def)
  have one: "\<exists>d. Encrypt E c p = (EncodeToString (DefaultStringCodec E) d, None)
           \<and> DecodeString (DefaultStringCodec E) (EncodeToString (DefaultStringCodec E) d) = Inr d
           \<and> take 16 d = ?iv" for p
    using shape Encrypt_starts_with_iv [OF assms(1) _ l, of c] by blast
  obtain d1 where d1: "Encrypt E c plainText1 = (EncodeToString (DefaultStringCodec E) d1, None)"
    "DecodeString (DefaultStringCodec E) (EncodeToString (DefaultStringCodec E) d1) = Inr d1"
    "take 16 d1 = ?iv"
    using one [of plainText1] by blast
  obtain d2 where d2: "Encrypt E c plainText2 = (EncodeToString (DefaultStringCodec E) d2, None)"
    "DecodeString (DefaultStringCodec E) (EncodeToString (DefaultStringCodec E) d2) = Inr d2"
    "take 16 d2 = ?iv"
    using one [of plainText2] by blast
  have strings: "\<exists>d1 d2. Encrypt E c plainText1 = (EncodeToString (DefaultStringCodec E) d1, None)
            \<and> Encrypt E c plainText2 = (EncodeToString (DefaultStringCodec E) d2, None)
            \<and> DecodeString (DefaultStringCodec E) (fst (Encrypt E c plainText1)) = Inr d1
            \<and> DecodeString (DefaultStringCodec E) (fst (Encrypt E c plainText2)) = Inr d2
            \<and> take 16 d1 = ?iv \<and> take 16 d2 = ?iv"
    using d1 d2 by (intro exI [of _ d1] exI [of _ d2]) simp
  have sk: "valid_key (Key_Bytes E (steam_key s))" "Key_Bytes E (steam_iv s) = ?iv"
    using assms(5) k
    by (auto simp: SimpleCFBStream_def SimpleOFBStream_def SimpleCTRStream_def NewCFBStream_def
        NewOFBStream_def NewCTRStream_def)
  have sl: "length (Key_Bytes E (steam_iv s)) = 16"
    using sk(2) l by simp
  obtain f where f: "build E (cipherStream s) (Key_Bytes E (steam_key s))
      (Key_Bytes E (steam_iv s)) encrypt = Returns (Inr f)"
    using build_ok [OF sk(1) sl] by blast
  have w: "steam_EncryptStream E s (bytes_NewReader p) new_bytes_Buffer
           = (new_bytes_Buffer\<lparr>written := ?iv @ f p\<rparr>, None)" for p
    using steam_EncryptStream_ok [OF sk(1) sl f, of p] sk(2) by simp
  have streams: "\<exists>w1 w2.
        steam_EncryptStream E s (bytes_NewReader plainText1) new_bytes_Buffer = (w1, None)
      \<and> steam_EncryptStream E s (bytes_NewReader plainText2) new_bytes_Buffer = (w2, None)
      \<and> take 16 (written w1) = ?iv \<and> take 16 (written w2) = ?iv"
    using w [of plainText1] w [of plainText2] l by simp
  show ?thesis
    using strings streams by (rule conjI)
qed

theorem Simple_iv_fixed_at_construction_witness:
  "Key_Bytes example_env (NewRandomIv example_env
      \<lparr>rand_iv = replicate 16 7, rand_err = None, sprint_seed = []\<rparr>) = replicate 16 7
   \<and> (\<exists>d1 d2.
        DecodeString HexCodec (fst (Encrypt example_env (SimpleCTR example_env
            \<lparr>rand_iv = replicate 16 7, rand_err = None, sprint_seed = []\<rparr> [0x70]) [0x68, 0x69]))
          = Inr d1
      \<and> DecodeString HexCodec (fst (Encrypt example_env (SimpleCTR example_env
            \<lparr>rand_iv = replicate 16 7, rand_err = None, sprint_seed = []\<rparr> [0x70]) [0x79, 0x6f, 0x75]))
          = Inr d2
      \<and> take 16 d1 = replicate 16 7 \<and> take 16 d2 = replicate 16 7)"
proof -
  let ?R = "\<lparr>rand_iv = replicate 16 7, rand_err = None, sprint_seed = []\<rparr>"
  have iv: "Key_Bytes example_env (NewRandomIv example_env ?R) = replicate 16 7"
    by (simp add: NewRandomIv_def Bytes_def)
  have c: "codec_ok (DefaultStringCodec example_env)"
    using codec_ok_HexCodec by (simp only: example_env_codec)
  have r: "entropy_ok ?R"
    by (simp add: entropy_ok_def)
  note t = Simple_iv_fixed_at_construction [OF c scrypt_ok_example r,
      of "SimpleCTR example_env ?R [0x70]" "[0x70]" "SimpleCTRStream example_env ?R [0x70]"
         "[0x68, 0x69]" "[0x79, 0x6f, 0x75]"]
  have "\<exists>d1 d2.
        DecodeString (DefaultStringCodec example_env)
          (fst (Encrypt example_env (SimpleCTR example_env ?R [0x70]) [0x68, 0x69])) = Inr d1
      \<and> DecodeString (DefaultStringCodec example_env)
          (fst (Encrypt example_env (SimpleCTR example_env ?R [0x70]) [0x79, 0x6f, 0x75])) = Inr d2
      \<and> take 16 d1 = Key_Bytes example_env (NewRandomIv example_env ?R)
      \<and> take 16 d2 = Key_Bytes example_env (NewRandomIv example_env ?R)"
    using t by blast
  then show ?thesis
    unfolding iv example_env_codec by simp
qed

end
